theory Spec2Isabelle
  imports Complex_Main
begin

section \<open>JavaScript values\<close>

subsection \<open>Strings\<close>

text \<open>
  A JavaScript string is modelled as a \<^typ>\<open>string\<close>, a list of 8-bit characters, each
  read as the code unit of that number: the model covers the strings whose code units
  lie in U+0000 to U+00FF (ASCII and Latin-1), and \<open>s.length\<close> is the length of the
  list. An optional string (\<open>undefined\<close> or a string) is a \<^typ>\<open>string option\<close>.

  White space, for \<open>trim\<close>, \<open>\s\<close> and \<open>parseInt\<close>: in this range the six ASCII
  characters and the no-break space U+00A0.
\<close>

definition is_space :: "char \<Rightarrow> bool" where
  "is_space c =
     (c \<in> set [CHR 0x09, CHR 0x0A, CHR 0x0B, CHR 0x0C, CHR 0x0D, CHR 0x20, CHR 0xA0])"

definition trim :: "string \<Rightarrow> string" where
  "trim s = rev (dropWhile is_space (rev (dropWhile is_space s)))"

text \<open>
  Case mapping in this range. The upper case letters are \<open>A\<close> to \<open>Z\<close> and U+00C0 to
  U+00DE without the multiplication sign U+00D7; each has its lower case 32 places on.
  \<open>toUpperCase\<close> writes the sharp s U+00DF as \<open>SS\<close>; the micro sign U+00B5 and
  U+00FF, whose upper case lies beyond U+00FF, are left as they are.
\<close>

definition is_upper_letter :: "char \<Rightarrow> bool" where
  "is_upper_letter c =
     (let n = (of_char c :: nat)
      in (65 \<le> n \<and> n \<le> 90) \<or> (192 \<le> n \<and> n \<le> 222 \<and> n \<noteq> 215))"

definition is_lower_letter :: "char \<Rightarrow> bool" where
  "is_lower_letter c =
     (let n = (of_char c :: nat)
      in (97 \<le> n \<and> n \<le> 122) \<or> (224 \<le> n \<and> n \<le> 254 \<and> n \<noteq> 247))"

definition lower_char :: "char \<Rightarrow> char" where
  "lower_char c = (if is_upper_letter c then char_of (of_char c + (32 :: nat)) else c)"

definition upper_chars :: "char \<Rightarrow> string" where
  "upper_chars c =
     (if is_lower_letter c then [char_of (of_char c - (32 :: nat))]
      else if c = CHR 0xDF then ''SS''
      else [c])"

definition toLowerCase :: "string \<Rightarrow> string" where
  "toLowerCase s = map lower_char s"

definition toUpperCase :: "string \<Rightarrow> string" where
  "toUpperCase s = concat (map upper_chars s)"

definition startsWith :: "string \<Rightarrow> string \<Rightarrow> bool" where
  "startsWith s t = (take (length t) s = t)"

text \<open>\<open>s.includes(t)\<close>: \<open>t\<close> occurs in \<open>s\<close> as a contiguous run.\<close>

fun str_includes :: "string \<Rightarrow> string \<Rightarrow> bool" where
  "str_includes [] t = (t = [])"
| "str_includes (c # s) t = (startsWith (c # s) t \<or> str_includes s t)"

text \<open>\<open>s.substring(0, n)\<close>.\<close>

definition substring0 :: "string \<Rightarrow> nat \<Rightarrow> string" where
  "substring0 s n = take n s"

text \<open>The decimal rendering of a non-negative integer inside a template literal.\<close>

fun show_nat :: "nat \<Rightarrow> string" where
  "show_nat n =
     (if n < 10 then [''0123456789'' ! n]
      else show_nat (n div 10) @ [''0123456789'' ! (n mod 10)])"

declare show_nat.simps [simp del]

text \<open>Truthiness of an optional string, and the idiom \<open>v || d\<close>.\<close>

definition truthy :: "string option \<Rightarrow> bool" where
  "truthy v = (case v of None \<Rightarrow> False | Some s \<Rightarrow> s \<noteq> [])"

definition or_str :: "string option \<Rightarrow> string \<Rightarrow> string" where
  "or_str v d = (case v of None \<Rightarrow> d | Some s \<Rightarrow> if s \<noteq> [] then s else d)"

definition or_opt :: "string option \<Rightarrow> string option \<Rightarrow> string option" where
  "or_opt v w = (if truthy v then v else w)"

subsection \<open>Numbers\<close>

text \<open>
  A finite JavaScript number is modelled by the real it stands for (in every
  computation below a rational), and the three values that are not finite are kept
  apart so that a division by zero is visible in the result. Counts and sums of scores
  are whole numbers far below \<open>2\<^sup>5\<^sup>3\<close>, where the number format is exact.

  \<open>js_div\<close>, \<open>js_mul\<close> and \<open>js_add\<close> are the exact operations. \<open>fl_div\<close>,
  \<open>fl_mul\<close> and \<open>fl_add\<close>, defined further down, round the exact result to the
  nearest number of the format (IEEE 754 binary64), as the machine does. The scores of
  the checks and the top scores of the analyzers are written with the exact operations;
  the overall score, the simulated times and \<open>parseFloat\<close>, where the rounding of the
  format shows in the result, with the rounded ones.
\<close>

datatype number = Num real | NaN | PosInfinity | NegInfinity

fun js_div :: "number \<Rightarrow> number \<Rightarrow> number" where
  "js_div (Num a) (Num b) =
     (if b = 0 then (if a = 0 then NaN else if 0 < a then PosInfinity else NegInfinity)
      else Num (a / b))"
| "js_div NaN _ = NaN"
| "js_div _ NaN = NaN"
| "js_div (Num a) PosInfinity = Num 0"
| "js_div (Num a) NegInfinity = Num 0"
| "js_div PosInfinity (Num b) = (if 0 \<le> b then PosInfinity else NegInfinity)"
| "js_div NegInfinity (Num b) = (if 0 \<le> b then NegInfinity else PosInfinity)"
| "js_div _ _ = NaN"

fun js_mul :: "number \<Rightarrow> number \<Rightarrow> number" where
  "js_mul (Num a) (Num b) = Num (a * b)"
| "js_mul NaN _ = NaN"
| "js_mul _ NaN = NaN"
| "js_mul (Num a) PosInfinity =
     (if a = 0 then NaN else if 0 < a then PosInfinity else NegInfinity)"
| "js_mul (Num a) NegInfinity =
     (if a = 0 then NaN else if 0 < a then NegInfinity else PosInfinity)"
| "js_mul PosInfinity (Num b) =
     (if b = 0 then NaN else if 0 < b then PosInfinity else NegInfinity)"
| "js_mul NegInfinity (Num b) =
     (if b = 0 then NaN else if 0 < b then NegInfinity else PosInfinity)"
| "js_mul PosInfinity PosInfinity = PosInfinity"
| "js_mul NegInfinity NegInfinity = PosInfinity"
| "js_mul _ _ = NegInfinity"

fun js_add :: "number \<Rightarrow> number \<Rightarrow> number" where
  "js_add (Num a) (Num b) = Num (a + b)"
| "js_add NaN _ = NaN"
| "js_add _ NaN = NaN"
| "js_add PosInfinity NegInfinity = NaN"
| "js_add NegInfinity PosInfinity = NaN"
| "js_add PosInfinity _ = PosInfinity"
| "js_add NegInfinity _ = NegInfinity"
| "js_add (Num a) b = b"

text \<open>\<open>Math.round\<close>: the nearest integer, a tie going up.\<close>

definition Math_round :: "real \<Rightarrow> int" where
  "Math_round x = floor (x + 1 / 2)"

fun Math_round_number :: "number \<Rightarrow> number" where
  "Math_round_number (Num x) = Num (of_int (Math_round x))"
| "Math_round_number n = n"

subsection \<open>Rounding to binary64\<close>

text \<open>
  \<open>two_exponent x\<close> is the exponent of the power of two at or below a positive \<open>x\<close>.
\<close>

function two_exponent :: "real \<Rightarrow> int" where
  "two_exponent x =
     (if x \<le> 0 then 0
      else if 2 \<le> x then two_exponent (x / 2) + 1
      else if x < 1 then two_exponent (2 * x) - 1
      else 0)"
  by pat_completeness auto
termination
proof (relation "measure (\<lambda>x. nat \<bar>floor (log 2 x)\<bar>)")
  show "wf (measure (\<lambda>x. nat \<bar>floor (log 2 x)\<bar>))" by simp
next
  fix x :: real
  assume "\<not> x \<le> 0" and "2 \<le> x"
  then have l: "log 2 (x / 2) = log 2 x - 1" by (simp add: log_divide)
  define k where "k = floor (log 2 x)"
  have "1 \<le> log 2 x" using \<open>2 \<le> x\<close> by (simp add: le_log_iff)
  then have k: "1 \<le> k" unfolding k_def by (simp add: le_floor_iff)
  have "floor (log 2 (x / 2)) = k - 1" unfolding k_def by (simp add: l)
  then have "nat \<bar>floor (log 2 (x / 2))\<bar> < nat \<bar>k\<bar>" using k by simp
  then show "(x / 2, x) \<in> measure (\<lambda>x. nat \<bar>floor (log 2 x)\<bar>)"
    unfolding k_def by simp
next
  fix x :: real
  assume "\<not> x \<le> 0" and "\<not> 2 \<le> x" and "x < 1"
  then have l: "log 2 (2 * x) = log 2 x + 1" by (simp add: log_mult)
  define k where "k = floor (log 2 x)"
  have "log 2 x < 0" using \<open>\<not> x \<le> 0\<close> \<open>x < 1\<close> by simp
  then have k: "k < 0" unfolding k_def by (simp add: floor_less_iff)
  have "floor (log 2 (2 * x)) = k + 1" unfolding k_def by (simp add: l)
  then have "nat \<bar>floor (log 2 (2 * x))\<bar> < nat \<bar>k\<bar>" using k by simp
  then show "(2 * x, x) \<in> measure (\<lambda>x. nat \<bar>floor (log 2 x)\<bar>)"
    unfolding k_def by simp
qed

declare two_exponent.simps [simp del]

definition pow2 :: "int \<Rightarrow> real" where
  "pow2 e = (if 0 \<le> e then 2 ^ nat e else 1 / 2 ^ nat (- e))"

text \<open>The nearest integer, a tie going to the even one.\<close>

definition round_even :: "real \<Rightarrow> int" where
  "round_even y =
     (let f = floor y; d = y - of_int f
      in if d < 1 / 2 then f else if 1 / 2 < d then f + 1 else if even f then f else f + 1)"

text \<open>
  \<open>dbl x\<close>: the real \<open>x\<close> rounded to 53 significant bits, a tie going to the even
  neighbour, with the fixed unit \<open>2\<^sup>-\<^sup>1\<^sup>0\<^sup>7\<^sup>4\<close> below the normal range. It is the binary64
  number nearest to \<open>x\<close> as long as that is finite; \<open>binary64\<close> adds the overflow to
  an infinity. A literal such as \<open>0.35\<close> is the number \<open>dbl 0.35\<close>.
\<close>

definition dbl :: "real \<Rightarrow> real" where
  "dbl x =
     (if x = 0 then 0
      else (let u = pow2 (max (two_exponent \<bar>x\<bar> - 52) (- 1074))
            in of_int (round_even (x / u)) * u))"

definition binary64 :: "real \<Rightarrow> number" where
  "binary64 x =
     (let y = dbl x
      in if pow2 1024 \<le> \<bar>y\<bar> then (if 0 < y then PosInfinity else NegInfinity) else Num y)"

fun fl :: "number \<Rightarrow> number" where
  "fl (Num x) = binary64 x"
| "fl n = n"

definition fl_div :: "number \<Rightarrow> number \<Rightarrow> number" where
  "fl_div a b = fl (js_div a b)"

definition fl_mul :: "number \<Rightarrow> number \<Rightarrow> number" where
  "fl_mul a b = fl (js_mul a b)"

definition fl_add :: "number \<Rightarrow> number \<Rightarrow> number" where
  "fl_add a b = fl (js_add a b)"

text \<open>\<open>a < b\<close> for a number \<open>a\<close> and a finite \<open>b\<close>: false when \<open>a\<close> is \<open>NaN\<close>.\<close>

fun js_less :: "number \<Rightarrow> real \<Rightarrow> bool" where
  "js_less (Num a) b = (a < b)"
| "js_less NegInfinity b = True"
| "js_less n b = False"

subsection \<open>Values of any type\<close>

text \<open>
  The content of an auxiliary file as the HTTP client hands it over: a string, or
  whatever a body that parses as JSON turns into.
\<close>

datatype jsval = JUndefined | JNull | JBool bool | JNumber real | JString string | JObject

fun js_truthy :: "jsval \<Rightarrow> bool" where
  "js_truthy JUndefined = False"
| "js_truthy JNull = False"
| "js_truthy (JBool b) = b"
| "js_truthy (JNumber n) = (n \<noteq> 0)"
| "js_truthy (JString s) = (s \<noteq> [])"
| "js_truthy JObject = True"

text \<open>\<open>v || null\<close>.\<close>

definition or_null :: "jsval \<Rightarrow> jsval" where
  "or_null v = (if js_truthy v then v else JNull)"

section \<open>The document and its queries\<close>

text \<open>
  The parsed page is a forest of element and text nodes, as the HTML parser builds it:
  tag and attribute names in lower case, each attribute name once. The parser itself is
  outside the repository; the analyzers below receive its result.
\<close>

datatype node =
    Element (tagName: string) (attribs: "(string \<times> string) list") (children: "node list")
  | TextNode (data: string)

text \<open>A selector, for the fragment of CSS the analyzers use.\<close>

datatype selector =
    Tag string
  | HasAttr string
  | AttrEq string string
  | AttrContains string string
  | AttrPrefix string string
  | Both selector selector
  | Either selector selector
  | Not selector
  | Inside selector selector

fun is_element :: "node \<Rightarrow> bool" where
  "is_element (Element t as cs) = True"
| "is_element (TextNode s) = False"

text \<open>\<open>$el.attr(a)\<close>.\<close>

fun attr :: "node \<Rightarrow> string \<Rightarrow> string option" where
  "attr (Element t as cs) a = map_of as a"
| "attr (TextNode s) a = None"

text \<open>Every ancestor with the ancestors above it, the nearest first.\<close>

fun ancestor_views :: "node list \<Rightarrow> (node list \<times> node) list" where
  "ancestor_views [] = []"
| "ancestor_views (a # as) = (as, a) # ancestor_views as"

text \<open>
  The attributes whose values a selector compares without regard to case in an HTML
  document (the list of the selector engine behind \<open>$\<close>). Of the attributes the
  analyzers select by value, \<open>rel\<close>, \<open>type\<close> and \<open>http-equiv\<close> are among them.
\<close>

definition caseInsensitiveAttributes :: "string list" where
  "caseInsensitiveAttributes =
     [''accept'', ''accept-charset'', ''align'', ''alink'', ''axis'', ''bgcolor'', ''charset'',
      ''checked'', ''clear'', ''codetype'', ''color'', ''compact'', ''declare'', ''defer'',
      ''dir'', ''direction'', ''disabled'', ''enctype'', ''face'', ''frame'', ''hreflang'',
      ''http-equiv'', ''lang'', ''language'', ''link'', ''media'', ''method'', ''multiple'',
      ''nohref'', ''noresize'', ''noshade'', ''nowrap'', ''readonly'', ''rel'', ''rev'',
      ''rules'', ''scope'', ''scrolling'', ''selected'', ''shape'', ''target'', ''text'',
      ''type'', ''valign'', ''valuetype'', ''vlink'']"

text \<open>A value of the attribute \<open>a\<close> as a selector compares it.\<close>

definition fold_case :: "string \<Rightarrow> string \<Rightarrow> string" where
  "fold_case a v = (if a \<in> set caseInsensitiveAttributes then toLowerCase v else v)"

text \<open>
  \<open>matches sel anc e\<close>: the element \<open>e\<close>, whose ancestors are \<open>anc\<close> (the parent
  first), matches the selector. \<open>Both p q\<close> is the compound \<open>pq\<close>, \<open>Either p q\<close> the
  list \<open>p, q\<close>, \<open>Not p\<close> is \<open>:not(p)\<close>, and \<open>Inside p q\<close> is the descendant
  combinator \<open>p q\<close>.
\<close>

fun matches :: "selector \<Rightarrow> node list \<Rightarrow> node \<Rightarrow> bool" where
  "matches (Tag t) anc e = (is_element e \<and> tagName e = t)"
| "matches (HasAttr a) anc e = (attr e a \<noteq> None)"
| "matches (AttrEq a v) anc e =
     (case attr e a of None \<Rightarrow> False | Some w \<Rightarrow> fold_case a w = fold_case a v)"
| "matches (AttrContains a v) anc e =
     (case attr e a of None \<Rightarrow> False
      | Some w \<Rightarrow> v \<noteq> [] \<and> str_includes (fold_case a w) (fold_case a v))"
| "matches (AttrPrefix a v) anc e =
     (case attr e a of None \<Rightarrow> False
      | Some w \<Rightarrow> v \<noteq> [] \<and> startsWith (fold_case a w) (fold_case a v))"
| "matches (Both p q) anc e = (matches p anc e \<and> matches q anc e)"
| "matches (Either p q) anc e = (matches p anc e \<or> matches q anc e)"
| "matches (Not p) anc e = (\<not> matches p anc e)"
| "matches (Inside p q) anc e =
     (matches q anc e \<and> list_ex (\<lambda>(as, a). matches p as a) (ancestor_views anc))"

text \<open>The elements below a node, in document order, each with its ancestors.\<close>

fun walk :: "node list \<Rightarrow> node \<Rightarrow> (node list \<times> node) list" where
  "walk anc (TextNode s) = []"
| "walk anc (Element t as cs) =
     (anc, Element t as cs) # concat (map (walk (Element t as cs # anc)) cs)"

definition all_elements :: "node list \<Rightarrow> (node list \<times> node) list" where
  "all_elements doc = concat (map (walk []) doc)"

text \<open>\<open>$(sel)\<close>: the elements of the document that match, in document order.\<close>

definition query :: "node list \<Rightarrow> selector \<Rightarrow> (node list \<times> node) list" where
  "query doc sel = filter (\<lambda>(anc, e). matches sel anc e) (all_elements doc)"

text \<open>\<open>$el.text()\<close>: the text nodes below a node, concatenated.\<close>

fun textContent :: "node \<Rightarrow> string" where
  "textContent (TextNode s) = s"
| "textContent (Element t as cs) = concat (map textContent cs)"

text \<open>\<open>$(sel).text()\<close> and \<open>$(sel).attr(a)\<close> (the attribute of the first match).\<close>

definition text_of :: "(node list \<times> node) list \<Rightarrow> string" where
  "text_of els = concat (map (\<lambda>(anc, e). textContent e) els)"

definition attr_of :: "(node list \<times> node) list \<Rightarrow> string \<Rightarrow> string option" where
  "attr_of els a = (case els of [] \<Rightarrow> None | (anc, e) # _ \<Rightarrow> attr e a)"

text \<open>\<open>$el.find(sel)\<close>: the matching elements strictly below an element.\<close>

definition find_in :: "node list \<times> node \<Rightarrow> selector \<Rightarrow> (node list \<times> node) list" where
  "find_in el sel =
     (case el of (anc, e) \<Rightarrow>
        filter (\<lambda>(anc', e'). matches sel anc' e')
          (concat (map (walk (e # anc)) (children e))))"

text \<open>\<open>$el.children()\<close>: the element children.\<close>

definition children_of :: "node list \<times> node \<Rightarrow> (node list \<times> node) list" where
  "children_of el =
     (case el of (anc, e) \<Rightarrow> map (\<lambda>c. (e # anc, c)) (filter is_element (children e)))"

section \<open>Checks, categories and reports\<close>

datatype status = Good | Warning | Error

text \<open>
  A check as the analyzers build it. The optional \<open>details\<close> text of a check is
  for display only and is left out; \<open>val\<close> is the field \<open>value\<close>.
\<close>

record check =
  name :: string
  val :: string
  score :: int
  maxScore :: int
  status :: status

text \<open>The bounds a score is meant to keep: from 0 to the maximum of its check.\<close>

definition in_range :: "check \<Rightarrow> bool" where
  "in_range c = (0 \<le> score c \<and> score c \<le> maxScore c)"

text \<open>\<open>xs.reduce((sum, c) => sum + f(c), 0)\<close>.\<close>

definition reduce_sum :: "('a \<Rightarrow> int) \<Rightarrow> 'a list \<Rightarrow> int" where
  "reduce_sum f xs = foldl (\<lambda>sum c. sum + f c) 0 xs"

text \<open>
  A category: its checks by key, in insertion order (\<open>Object.values\<close> is the list of
  the second components), and the two sums.
\<close>

record category =
  cat_name :: string
  checks :: "(string \<times> check) list"
  cat_score :: int
  cat_maxScore :: int

definition make_category :: "string \<Rightarrow> (string \<times> check) list \<Rightarrow> category" where
  "make_category n cs =
     \<lparr> cat_name = n, checks = cs,
       cat_score = reduce_sum score (map snd cs),
       cat_maxScore = reduce_sum maxScore (map snd cs) \<rparr>"

text \<open>The check stored under a key.\<close>

definition check_at :: "category \<Rightarrow> string \<Rightarrow> check option" where
  "check_at c k = map_of (checks c) k"

section \<open>What the analyzers are given\<close>

text \<open>
  Response headers, by lower-case name. \<open>new URL(url)\<close> and the HTML parser are
  libraries outside the repository: the parsed URL and the parsed document are taken as
  they are handed over. \<open>URL_new\<close> is \<open>None\<close> where the constructor throws.

  \<open>cheerio_select d sel\<close> is the outcome of \<open>$(sel).length\<close> on the document \<open>d\<close>
  for a selector given as text: the number of elements selected, or \<open>Inl\<close> the message
  of the error that the selector parser throws. The selectors that the analyzers write
  out are read by \<open>query\<close>; they go to \<open>cheerio_select\<close> only with the one selector
  that they build from the text of the page, the label of an input.
\<close>

type_synonym headers = "string \<Rightarrow> string option"

record parsed_url =
  protocol :: string
  host :: string

record library =
  URL_new :: "string \<Rightarrow> parsed_url option"
  cheerio_load :: "string \<Rightarrow> node list"
  cheerio_select :: "node list \<Rightarrow> string \<Rightarrow> string + nat"

section \<open>The website quality analyzer\<close>

text \<open>The fields of an instance; \<open>doc\<close> is the field \<open>$\<close>.\<close>

record WebsiteQualityAnalyzer =
  url :: string
  doc :: "node list"
  headers :: headers
  html :: string
  parsedUrl :: parsed_url
  robotsTxt :: jsval
  sitemap :: jsval
  llmsTxt :: jsval

record additionalData =
  ad_robotsTxt :: jsval
  ad_sitemap :: jsval
  ad_llmsTxt :: jsval

text \<open>The constructor; \<open>None\<close> when \<open>new URL(url)\<close> throws.\<close>

definition new_WebsiteQualityAnalyzer ::
  "library \<Rightarrow> string \<Rightarrow> string \<Rightarrow> headers \<Rightarrow> additionalData \<Rightarrow> WebsiteQualityAnalyzer option" where
  "new_WebsiteQualityAnalyzer lib u h hs ad =
     (case URL_new lib u of
        None \<Rightarrow> None
      | Some p \<Rightarrow>
          Some \<lparr> url = u, doc = cheerio_load lib h, headers = hs, html = h, parsedUrl = p,
                 robotsTxt = or_null (ad_robotsTxt ad),
                 sitemap = or_null (ad_sitemap ad),
                 llmsTxt = or_null (ad_llmsTxt ad) \<rparr>)"

subsection \<open>Site quality\<close>

definition siteQuality_title :: "WebsiteQualityAnalyzer \<Rightarrow> check" where
  "siteQuality_title this =
     (let title = trim (text_of (query (doc this) (Tag ''title'')));
          titleLength = length title;
          (titleScore, titleStatus) =
            (if 30 \<le> titleLength \<and> titleLength \<le> 60 then (20, Good)
             else if 0 < titleLength \<and> titleLength < 30 then (16, Warning)
             else if 60 < titleLength then (12, Warning)
             else (0, Error))
      in \<lparr> name = ''Title'', val = (if title \<noteq> [] then title else ''Missing''),
           score = titleScore, maxScore = 20, status = titleStatus \<rparr>)"

definition siteQuality_metaDescription :: "WebsiteQualityAnalyzer \<Rightarrow> check" where
  "siteQuality_metaDescription this =
     (let metaDesc =
            or_str (attr_of (query (doc this) (Both (Tag ''meta'') (AttrEq ''name'' ''description'')))
                      ''content'') [];
          metaDescLength = length metaDesc;
          (metaDescScore, metaDescStatus) =
            (if 120 \<le> metaDescLength \<and> metaDescLength \<le> 160 then (15, Good)
             else if 0 < metaDescLength \<and> metaDescLength < 120 then (10, Warning)
             else if 160 < metaDescLength then (8, Warning)
             else (0, Error))
      in \<lparr> name = ''Meta Description'',
           val = (if metaDesc \<noteq> [] then metaDesc else ''Missing''),
           score = metaDescScore, maxScore = 15, status = metaDescStatus \<rparr>)"

definition siteQuality_favicon :: "WebsiteQualityAnalyzer \<Rightarrow> check" where
  "siteQuality_favicon this =
     (let favicon =
            attr_of (query (doc this)
              (Either (Both (Tag ''link'') (AttrEq ''rel'' ''icon''))
                (Either (Both (Tag ''link'') (AttrEq ''rel'' ''shortcut icon''))
                        (Both (Tag ''link'') (AttrContains ''rel'' ''icon''))))) ''href'';
          faviconScore = (if truthy favicon then 5 else 0)
      in \<lparr> name = ''Favicon'', val = (if truthy favicon then ''Present'' else ''Missing''),
           score = faviconScore, maxScore = 5,
           status = (if truthy favicon then Good else Error) \<rparr>)"

definition siteQuality_viewport :: "WebsiteQualityAnalyzer \<Rightarrow> check" where
  "siteQuality_viewport this =
     (let viewport =
            attr_of (query (doc this) (Both (Tag ''meta'') (AttrEq ''name'' ''viewport'')))
              ''content'';
          viewportScore = (if truthy viewport then 5 else 0)
      in \<lparr> name = ''Viewport Meta'', val = (if truthy viewport then ''Present'' else ''Missing''),
           score = viewportScore, maxScore = 5,
           status = (if truthy viewport then Good else Error) \<rparr>)"

definition siteQuality_headings :: "WebsiteQualityAnalyzer \<Rightarrow> check" where
  "siteQuality_headings this =
     (let h1Count = length (query (doc this) (Tag ''h1''));
          hasH1 = (h1Count = 1);
          headingsScore = (if hasH1 then 5 else if 1 < h1Count then 3 else 0)
      in \<lparr> name = ''Headings'', val = show_nat h1Count @ '' H1 tag(s)'',
           score = headingsScore, maxScore = 5,
           status = (if hasH1 then Good else Warning) \<rparr>)"

definition analyzeSiteQuality :: "WebsiteQualityAnalyzer \<Rightarrow> category" where
  "analyzeSiteQuality this =
     make_category ''Site Quality''
       [(''title'', siteQuality_title this),
        (''metaDescription'', siteQuality_metaDescription this),
        (''favicon'', siteQuality_favicon this),
        (''viewport'', siteQuality_viewport this),
        (''headings'', siteQuality_headings this)]"

subsection \<open>Content quality\<close>

text \<open>\<open>s.replace(/\s+/g, ' ')\<close> and \<open>s.split(' ')\<close>.\<close>

function collapse_ws :: "string \<Rightarrow> string" where
  "collapse_ws [] = []"
| "collapse_ws (c # s) =
     (if is_space c then CHR '' '' # collapse_ws (dropWhile is_space s)
      else c # collapse_ws s)"
  by pat_completeness auto
termination
  by (relation "measure length") (auto simp: length_dropWhile_le less_Suc_eq_le)

fun split_on :: "char \<Rightarrow> string \<Rightarrow> string list" where
  "split_on d [] = [[]]"
| "split_on d (c # s) =
     (if c = d then [] # split_on d s
      else (case split_on d s of [] \<Rightarrow> [[c]] | w # ws \<Rightarrow> (c # w) # ws))"

definition contentQuality_wordCount :: "WebsiteQualityAnalyzer \<Rightarrow> check" where
  "contentQuality_wordCount this =
     (let bodyText = trim (collapse_ws (text_of (query (doc this) (Tag ''body''))));
          wordCount = length (filter (\<lambda>w. 0 < length w) (split_on CHR '' '' bodyText));
          (wordCountScore, wordCountStatus) =
            (if 300 \<le> wordCount then (5, Good)
             else if 100 \<le> wordCount then (3, Warning)
             else (0, Warning))
      in \<lparr> name = ''Content Length'', val = show_nat wordCount @ '' words'',
           score = wordCountScore, maxScore = 5, status = wordCountStatus \<rparr>)"

definition allImages :: "WebsiteQualityAnalyzer \<Rightarrow> nat" where
  "allImages this = length (query (doc this) (Tag ''img''))"

definition webpImages :: "WebsiteQualityAnalyzer \<Rightarrow> nat" where
  "webpImages this =
     length (query (doc this)
       (Either (Both (Tag ''img'') (AttrContains ''src'' ''.webp''))
               (Both (Tag ''source'') (AttrEq ''type'' ''image/webp''))))"

definition pictureElements :: "WebsiteQualityAnalyzer \<Rightarrow> nat" where
  "pictureElements this = length (query (doc this) (Tag ''picture''))"

definition optimizedRatio :: "WebsiteQualityAnalyzer \<Rightarrow> real" where
  "optimizedRatio this =
     (if 0 < allImages this
      then real (webpImages this + pictureElements this) / real (allImages this)
      else 1)"

definition contentQuality_imageOptimization :: "WebsiteQualityAnalyzer \<Rightarrow> check" where
  "contentQuality_imageOptimization this =
     (let imageOptScore = Math_round (optimizedRatio this * 4)
      in \<lparr> name = ''Image Optimization'',
           val = show_nat (webpImages this + pictureElements this) @ ''/''
                 @ show_nat (allImages this) @ '' optimized'',
           score = imageOptScore, maxScore = 4,
           status = (if 3 \<le> imageOptScore then Good
                     else if 1 \<le> imageOptScore then Warning else Error) \<rparr>)"

definition analyzeContentQuality :: "WebsiteQualityAnalyzer \<Rightarrow> category" where
  "analyzeContentQuality this =
     make_category ''Content Quality''
       [(''wordCount'', contentQuality_wordCount this),
        (''imageOptimization'', contentQuality_imageOptimization this)]"

subsection \<open>Open Graph, Twitter cards and technical SEO\<close>

text \<open>
  The checks of these categories share one shape: an attribute read from the first
  match of a selector, full points when it is truthy, \<open>Warning\<close> otherwise.
\<close>

definition presence_check :: "string \<Rightarrow> string option \<Rightarrow> int \<Rightarrow> check" where
  "presence_check n v pts =
     \<lparr> name = n, val = or_str v ''Missing'', score = (if truthy v then pts else 0),
       maxScore = pts, status = (if truthy v then Good else Warning) \<rparr>"

definition meta_content :: "WebsiteQualityAnalyzer \<Rightarrow> string \<Rightarrow> string \<Rightarrow> string option" where
  "meta_content this a v = attr_of (query (doc this) (Both (Tag ''meta'') (AttrEq a v))) ''content''"

definition analyzeOpenGraph :: "WebsiteQualityAnalyzer \<Rightarrow> category" where
  "analyzeOpenGraph this =
     make_category ''Open Graph''
       [(''ogTitle'', presence_check ''OG Title'' (meta_content this ''property'' ''og:title'') 5),
        (''ogDescription'',
           presence_check ''OG Description'' (meta_content this ''property'' ''og:description'') 5),
        (''ogImage'', presence_check ''OG Image'' (meta_content this ''property'' ''og:image'') 5)]"

definition analyzeTwitterCards :: "WebsiteQualityAnalyzer \<Rightarrow> category" where
  "analyzeTwitterCards this =
     make_category ''Twitter Cards''
       [(''cardType'', presence_check ''Card Type'' (meta_content this ''name'' ''twitter:card'') 3),
        (''twitterTitle'',
           presence_check ''Twitter Title'' (meta_content this ''name'' ''twitter:title'') 3),
        (''twitterDescription'',
           presence_check ''Twitter Description''
             (meta_content this ''name'' ''twitter:description'') 2),
        (''twitterImage'',
           presence_check ''Twitter Image'' (meta_content this ''name'' ''twitter:image'') 2)]"

definition technicalSeo_schemaJsonLd :: "WebsiteQualityAnalyzer \<Rightarrow> check" where
  "technicalSeo_schemaJsonLd this =
     (let jsonLd =
            (0 < length (query (doc this)
                   (Both (Tag ''script'') (AttrEq ''type'' ''application/ld+json''))))
      in \<lparr> name = ''Schema.org JSON-LD'', val = (if jsonLd then ''Present'' else ''Missing''),
           score = (if jsonLd then 4 else 0), maxScore = 4,
           status = (if jsonLd then Good else Warning) \<rparr>)"

definition analyzeTechnicalSeo :: "WebsiteQualityAnalyzer \<Rightarrow> category" where
  "analyzeTechnicalSeo this =
     make_category ''Technical SEO''
       [(''canonical'',
           presence_check ''Canonical URL''
             (attr_of (query (doc this) (Both (Tag ''link'') (AttrEq ''rel'' ''canonical''))) ''href'') 5),
        (''htmlLang'',
           presence_check ''HTML Lang'' (attr_of (query (doc this) (Tag ''html'')) ''lang'') 3),
        (''charset'',
           presence_check ''Character Encoding''
             (or_opt
                (attr_of (query (doc this) (Both (Tag ''meta'') (HasAttr ''charset''))) ''charset'')
                (meta_content this ''http-equiv'' ''Content-Type'')) 3),
        (''schemaJsonLd'', technicalSeo_schemaJsonLd this)]"

subsection \<open>Crawlability\<close>

text \<open>\<open>v !== null && v !== false\<close>.\<close>

definition present :: "jsval \<Rightarrow> bool" where
  "present v = (v \<noteq> JNull \<and> v \<noteq> JBool False)"

definition crawlability_robotsTxt :: "WebsiteQualityAnalyzer \<Rightarrow> check" where
  "crawlability_robotsTxt this =
     (let hasRobots = present (robotsTxt this)
      in \<lparr> name = ''robots.txt'', val = (if hasRobots then ''Present'' else ''Missing''),
           score = (if hasRobots then 4 else 0), maxScore = 4,
           status = (if hasRobots then Good else Warning) \<rparr>)"

definition crawlability_sitemap :: "WebsiteQualityAnalyzer \<Rightarrow> check" where
  "crawlability_sitemap this =
     (let hasSitemap = present (sitemap this)
      in \<lparr> name = ''Sitemap'', val = (if hasSitemap then ''Present'' else ''Missing''),
           score = (if hasSitemap then 4 else 0), maxScore = 4,
           status = (if hasSitemap then Good else Warning) \<rparr>)"

definition crawlability_llmsTxt :: "WebsiteQualityAnalyzer \<Rightarrow> check" where
  "crawlability_llmsTxt this =
     (let hasLlmsTxt = present (llmsTxt this)
      in \<lparr> name = ''llms.txt'', val = (if hasLlmsTxt then ''Present'' else ''Missing''),
           score = (if hasLlmsTxt then 3 else 0), maxScore = 3,
           status = (if hasLlmsTxt then Good else Error) \<rparr>)"

definition analyzeCrawlability :: "WebsiteQualityAnalyzer \<Rightarrow> category" where
  "analyzeCrawlability this =
     make_category ''Crawlability''
       [(''robotsTxt'', crawlability_robotsTxt this),
        (''sitemap'', crawlability_sitemap this),
        (''llmsTxt'', crawlability_llmsTxt this)]"

subsection \<open>The report\<close>

text \<open>
  The report of an analyzer: \<open>rep_score\<close> and \<open>rep_maxScore\<close> are its fields
  \<open>score\<close> and \<open>maxScore\<close>.
\<close>

record report =
  rep_score :: number
  rep_maxScore :: int
  categories :: "(string \<times> category) list"

definition quality_categories :: "WebsiteQualityAnalyzer \<Rightarrow> (string \<times> category) list" where
  "quality_categories this =
     [(''siteQuality'', analyzeSiteQuality this),
      (''contentQuality'', analyzeContentQuality this),
      (''openGraph'', analyzeOpenGraph this),
      (''twitterCards'', analyzeTwitterCards this),
      (''technicalSeo'', analyzeTechnicalSeo this),
      (''crawlability'', analyzeCrawlability this)]"

text \<open>\<open>allChecks\<close>: the checks of every category, spread into one list.\<close>

definition flatten_checks :: "(string \<times> category) list \<Rightarrow> check list" where
  "flatten_checks cats = concat (map (\<lambda>(k, c). map snd (checks c)) cats)"

definition quality_allChecks :: "WebsiteQualityAnalyzer \<Rightarrow> check list" where
  "quality_allChecks this = flatten_checks (quality_categories this)"

text \<open>\<open>Math.round((earnedPoints / maxPoints) * 100)\<close>.\<close>

definition percent_of :: "int \<Rightarrow> int \<Rightarrow> number" where
  "percent_of earnedPoints maxPoints =
     Math_round_number
       (js_mul (js_div (Num (of_int earnedPoints)) (Num (of_int maxPoints))) (Num 100))"

definition quality_analyze :: "WebsiteQualityAnalyzer \<Rightarrow> report" where
  "quality_analyze this =
     (let allChecks = quality_allChecks this;
          earnedPoints = reduce_sum score allChecks;
          maxPoints = reduce_sum maxScore allChecks
      in \<lparr> rep_score = percent_of earnedPoints maxPoints, rep_maxScore = 100,
           categories = quality_categories this \<rparr>)"

section \<open>The trust and security analyzer\<close>

record TrustSecurityAnalyzer =
  url :: string
  headers :: headers
  html :: string
  parsedUrl :: parsed_url

definition new_TrustSecurityAnalyzer ::
  "library \<Rightarrow> string \<Rightarrow> headers \<Rightarrow> string \<Rightarrow> TrustSecurityAnalyzer option" where
  "new_TrustSecurityAnalyzer lib u hs h =
     (case URL_new lib u of
        None \<Rightarrow> None
      | Some p \<Rightarrow> Some \<lparr> url = u, headers = hs, html = h, parsedUrl = p \<rparr>)"

subsection \<open>Security headers\<close>

definition securityHeaders_https :: "TrustSecurityAnalyzer \<Rightarrow> check" where
  "securityHeaders_https this =
     (let isHttps = (protocol (parsedUrl this) = ''https:'')
      in \<lparr> name = ''HTTPS'',
           val = (if isHttps then ''Secure connection enabled'' else ''Not using HTTPS''),
           score = (if isHttps then 20 else 0), maxScore = 20,
           status = (if isHttps then Good else Error) \<rparr>)"

text \<open>
  The score of the HSTS check: the three assignments to \<open>hstsScore\<close> in their order.
\<close>

definition hstsScore :: "string option \<Rightarrow> int" where
  "hstsScore hsts =
     (case hsts of
        None \<Rightarrow> 0
      | Some h \<Rightarrow>
          if h = [] then 0
          else
            (let s1 = 10;
                 s2 = (if \<not> str_includes h ''includeSubDomains'' then 7 else s1);
                 s3 = (if \<not> str_includes h ''preload'' then min s2 8 else s2)
             in s3))"

definition securityHeaders_hsts :: "TrustSecurityAnalyzer \<Rightarrow> check" where
  "securityHeaders_hsts this =
     (let hsts = headers this ''strict-transport-security''
      in \<lparr> name = ''HTTP Strict Transport Security'',
           val = (case hsts of
                    None \<Rightarrow> ''Missing''
                  | Some h \<Rightarrow>
                      if h = [] then ''Missing''
                      else ''HSTS: '' @ substring0 h 60 @ (if 60 < length h then ''...'' else [])),
           score = hstsScore hsts, maxScore = 10,
           status = (if truthy hsts then Good else Warning) \<rparr>)"

definition securityHeaders_csp :: "TrustSecurityAnalyzer \<Rightarrow> check" where
  "securityHeaders_csp this =
     (let csp = headers this ''content-security-policy''
      in \<lparr> name = ''Content Security Policy'',
           val = (if truthy csp then ''CSP configured'' else ''Missing''),
           score = (if truthy csp then 10 else 0), maxScore = 10,
           status = (if truthy csp then Good else Warning) \<rparr>)"

text \<open>
  A header that earns its points by being there, shown with a label in front:
  the checks for \<open>X-Frame-Options\<close>, \<open>X-Content-Type-Options\<close>,
  \<open>X-XSS-Protection\<close> and \<open>Referrer-Policy\<close>.
\<close>

definition labelled_header_check :: "string \<Rightarrow> string \<Rightarrow> string option \<Rightarrow> int \<Rightarrow> check" where
  "labelled_header_check n label v pts =
     \<lparr> name = n,
       val = (case v of
                None \<Rightarrow> ''Missing''
              | Some h \<Rightarrow> if h = [] then ''Missing'' else label @ h),
       score = (if truthy v then pts else 0), maxScore = pts,
       status = (if truthy v then Good else Warning) \<rparr>"

definition securityHeaders_permissionsPolicy :: "TrustSecurityAnalyzer \<Rightarrow> check" where
  "securityHeaders_permissionsPolicy this =
     (let permissionsPolicy =
            or_opt (headers this ''permissions-policy'') (headers this ''feature-policy'')
      in \<lparr> name = ''Permissions Policy'',
           val = (if truthy permissionsPolicy then ''Configured'' else ''Missing''),
           score = (if truthy permissionsPolicy then 5 else 0), maxScore = 5,
           status = (if truthy permissionsPolicy then Good else Warning) \<rparr>)"

definition securityHeaders_secureCache :: "TrustSecurityAnalyzer \<Rightarrow> check" where
  "securityHeaders_secureCache this =
     (let cacheControl = headers this ''cache-control'';
          hasSecureCache =
            (case cacheControl of
               None \<Rightarrow> False
             | Some c \<Rightarrow> c \<noteq> [] \<and> (str_includes c ''no-store'' \<or> str_includes c ''private''))
      in \<lparr> name = ''Secure Caching'', val = or_str cacheControl ''Not configured'',
           score = (if hasSecureCache then 3 else 1), maxScore = 3,
           status = (if hasSecureCache then Good else Warning) \<rparr>)"

definition securityHeaders_crossOrigin :: "TrustSecurityAnalyzer \<Rightarrow> check" where
  "securityHeaders_crossOrigin this =
     (let coep = headers this ''cross-origin-embedder-policy'';
          coop = headers this ''cross-origin-opener-policy'';
          corp = headers this ''cross-origin-resource-policy'';
          crossOriginCount =
            (if truthy coep then 1 else 0) + (if truthy coop then 1 else 0)
            + (if truthy corp then 1 else (0::nat))
      in \<lparr> name = ''Cross-Origin Isolation'',
           val = (if 0 < crossOriginCount then show_nat crossOriginCount @ ''/3 policies set''
                  else ''Not configured''),
           score = min 4 (int crossOriginCount * 2), maxScore = 4,
           status = (if 2 \<le> crossOriginCount then Good else Warning) \<rparr>)"

definition analyzeSecurityHeaders :: "TrustSecurityAnalyzer \<Rightarrow> category" where
  "analyzeSecurityHeaders this =
     make_category ''Security Headers''
       [(''https'', securityHeaders_https this),
        (''hsts'', securityHeaders_hsts this),
        (''csp'', securityHeaders_csp this),
        (''frameProtection'',
           labelled_header_check ''Clickjacking Protection'' ''X-Frame-Options: ''
             (headers this ''x-frame-options'') 5),
        (''mimeProtection'',
           labelled_header_check ''MIME Sniffing Protection'' ''X-Content-Type-Options: ''
             (headers this ''x-content-type-options'') 5),
        (''xssProtection'',
           labelled_header_check ''XSS Protection Header'' ''X-XSS-Protection: ''
             (headers this ''x-xss-protection'') 3),
        (''referrerPolicy'',
           labelled_header_check ''Referrer Policy'' ''Referrer-Policy: ''
             (headers this ''referrer-policy'') 5),
        (''permissionsPolicy'', securityHeaders_permissionsPolicy this),
        (''secureCache'', securityHeaders_secureCache this),
        (''crossOrigin'', securityHeaders_crossOrigin this)]"

subsection \<open>Domain trust\<close>

definition analyzeDomainTrust :: "TrustSecurityAnalyzer \<Rightarrow> category" where
  "analyzeDomainTrust this =
     make_category ''Domain Trust''
       [(''domainRating'',
           \<lparr> name = ''Domain Rating'', val = ''Not available'', score = 0, maxScore = 25,
             status = Warning \<rparr>),
        (''domainAge'',
           \<lparr> name = ''Domain Age'', val = ''Could not determine'', score = 0, maxScore = 5,
             status = Warning \<rparr>),
        (''registrar'',
           \<lparr> name = ''Registrar'', val = ''Could not determine'', score = 0, maxScore = 0,
             status = Warning \<rparr>),
        (''country'',
           \<lparr> name = ''Country'', val = ''Could not determine'', score = 0, maxScore = 0,
             status = Warning \<rparr>)]"

subsection \<open>Infrastructure\<close>

definition is_digit :: "char \<Rightarrow> bool" where
  "is_digit c = (c \<in> set ''0123456789'')"

text \<open>\<open>s.match(/[\d.]+/)\<close> finds something.\<close>

definition has_version_chars :: "string \<Rightarrow> bool" where
  "has_version_chars s = list_ex (\<lambda>c. is_digit c \<or> c = CHR ''.'') s"

definition infra_server :: "TrustSecurityAnalyzer \<Rightarrow> string" where
  "infra_server this = or_str (headers this ''server'') []"

definition infra_via :: "TrustSecurityAnalyzer \<Rightarrow> string" where
  "infra_via this = or_str (headers this ''via'') []"

definition infra_xCache :: "TrustSecurityAnalyzer \<Rightarrow> string" where
  "infra_xCache this = or_str (headers this ''x-cache'') []"

definition infra_xPoweredBy :: "TrustSecurityAnalyzer \<Rightarrow> string" where
  "infra_xPoweredBy this = or_str (headers this ''x-powered-by'') []"

definition infrastructure_provider :: "TrustSecurityAnalyzer \<Rightarrow> check" where
  "infrastructure_provider this =
     (let server = infra_server this; via = infra_via this;
          cfRay = headers this ''cf-ray'';
          xVercelId = headers this ''x-vercel-id'';
          xAmzCfId = headers this ''x-amz-cf-id'';
          xCache = infra_xCache this;
          provider =
            (if truthy cfRay then ''Cloudflare''
             else if truthy xVercelId then ''Vercel''
             else if truthy xAmzCfId \<or> str_includes xCache ''cloudfront'' then ''AWS CloudFront''
             else if str_includes (toLowerCase server) ''nginx'' then ''Nginx''
             else if str_includes (toLowerCase server) ''apache'' then ''Apache''
             else if str_includes (toLowerCase server) ''netlify'' then ''Netlify''
             else if str_includes via ''google'' then ''Google Cloud''
             else if str_includes (toLowerCase server) ''microsoft''
                     \<or> str_includes (toLowerCase server) ''iis'' then ''Microsoft IIS''
             else ''Unknown'')
      in \<lparr> name = ''Hosting Provider'', val = provider, score = 0, maxScore = 0,
           status = (if provider \<noteq> ''Unknown'' then Good else Warning) \<rparr>)"

definition infrastructure_cdn :: "TrustSecurityAnalyzer \<Rightarrow> check" where
  "infrastructure_cdn this =
     (let via = infra_via this; xCache = infra_xCache this;
          hasCDN =
            (truthy (headers this ''cf-ray'') \<or> truthy (headers this ''x-amz-cf-id'')
             \<or> str_includes xCache ''HIT'' \<or> str_includes xCache ''cloudfront''
             \<or> str_includes via ''cloudflare'' \<or> str_includes via ''akamai''
             \<or> str_includes via ''fastly'')
      in \<lparr> name = ''CDN Usage'', val = (if hasCDN then ''CDN detected'' else ''No CDN detected''),
           score = (if hasCDN then 5 else 0), maxScore = 5,
           status = (if hasCDN then Good else Warning) \<rparr>)"

definition infrastructure_serverExposure :: "TrustSecurityAnalyzer \<Rightarrow> check" where
  "infrastructure_serverExposure this =
     (let exposesVersion =
            (has_version_chars (infra_server this) \<or> has_version_chars (infra_xPoweredBy this))
      in \<lparr> name = ''Server Version Hidden'',
           val = (if exposesVersion then ''Version exposed'' else ''Version hidden''),
           score = (if exposesVersion then 0 else 3), maxScore = 3,
           status = (if exposesVersion then Warning else Good) \<rparr>)"

definition infrastructure_poweredBy :: "TrustSecurityAnalyzer \<Rightarrow> check" where
  "infrastructure_poweredBy this =
     (let xPoweredBy = infra_xPoweredBy this
      in \<lparr> name = ''X-Powered-By Hidden'',
           val = (if xPoweredBy \<noteq> [] then ''Exposed: '' @ xPoweredBy else ''Hidden''),
           score = (if xPoweredBy \<noteq> [] then 0 else 2), maxScore = 2,
           status = (if xPoweredBy \<noteq> [] then Warning else Good) \<rparr>)"

definition infrastructure_waf :: "TrustSecurityAnalyzer \<Rightarrow> check" where
  "infrastructure_waf this =
     (let server = infra_server this;
          hasWAF =
            (truthy (headers this ''cf-ray'') \<or> truthy (headers this ''x-sucuri-id'')
             \<or> truthy (headers this ''x-cdn'')
             \<or> str_includes (toLowerCase server) ''cloudflare''
             \<or> str_includes (toLowerCase server) ''sucuri'')
      in \<lparr> name = ''Web Application Firewall'',
           val = (if hasWAF then ''WAF detected'' else ''No WAF detected''),
           score = 0, maxScore = 0,
           status = (if hasWAF then Good else Warning) \<rparr>)"

definition analyzeInfrastructure :: "TrustSecurityAnalyzer \<Rightarrow> category" where
  "analyzeInfrastructure this =
     make_category ''Infrastructure''
       [(''provider'', infrastructure_provider this),
        (''cdn'', infrastructure_cdn this),
        (''serverExposure'', infrastructure_serverExposure this),
        (''poweredBy'', infrastructure_poweredBy this),
        (''waf'', infrastructure_waf this)]"

subsection \<open>Trust indicators\<close>

text \<open>\<open>s.match(/\d{5}/)\<close> finds something: five digits in a row.\<close>

fun has_five_digits :: "string \<Rightarrow> bool" where
  "has_five_digits [] = False"
| "has_five_digits (c # s) =
     (5 \<le> length (takeWhile is_digit (c # s)) \<or> has_five_digits s)"

text \<open>
  A check that scans the page text: full points and \<open>Good\<close> when the sign is found,
  with the two texts shown.
\<close>

definition found_check :: "string \<Rightarrow> bool \<Rightarrow> string \<Rightarrow> string \<Rightarrow> int \<Rightarrow> check" where
  "found_check n found yes no pts =
     \<lparr> name = n, val = (if found then yes else no), score = (if found then pts else 0),
       maxScore = pts, status = (if found then Good else Warning) \<rparr>"

definition analyzeTrustIndicators :: "TrustSecurityAnalyzer \<Rightarrow> category" where
  "analyzeTrustIndicators this =
     (let htmlLower = toLowerCase (html this);
          has = str_includes htmlLower;
          hasPrivacyPolicy =
            (has ''privacy policy'' \<or> has ''privacy-policy'' \<or> has ''/privacy''
             \<or> has ''datenschutz'');
          hasTerms =
            (has ''terms of service'' \<or> has ''terms-of-service''
             \<or> has ''terms and conditions'' \<or> has ''/terms'' \<or> has ''tos'');
          hasContact =
            (has ''contact us'' \<or> has ''contact-us'' \<or> has ''/contact'' \<or> has ''mailto:''
             \<or> has ''tel:'' \<or> has ''support@'' \<or> has ''info@'');
          hasCookieConsent =
            (has ''cookie''
             \<and> (has ''consent'' \<or> has ''accept'' \<or> has ''policy'' \<or> has ''banner''));
          hasAbout =
            (has ''about us'' \<or> has ''about-us'' \<or> has ''/about'' \<or> has ''our team''
             \<or> has ''our story'' \<or> has ''who we are'');
          hasAddress =
            (has ''address'' \<or> has_five_digits (html this) \<or> has ''street'' \<or> has ''suite''
             \<or> has ''floor'');
          hasSocial =
            (has ''twitter.com'' \<or> has ''facebook.com'' \<or> has ''linkedin.com''
             \<or> has ''instagram.com'' \<or> has ''youtube.com'' \<or> has ''x.com'');
          hasTrustBadges =
            (has ''ssl'' \<or> has ''secure'' \<or> has ''verified'' \<or> has ''certified''
             \<or> has ''trust'' \<or> has ''norton'' \<or> has ''mcafee'' \<or> has ''bbb'');
          hasGDPR =
            (has ''gdpr'' \<or> has ''data protection'' \<or> has ''data subject''
             \<or> has ''right to be forgotten'' \<or> has ''data controller'')
      in make_category ''Trust Indicators''
           [(''privacyPolicy'',
               found_check ''Privacy Policy'' hasPrivacyPolicy ''Found'' ''Not detected'' 4),
            (''termsOfService'',
               found_check ''Terms of Service'' hasTerms ''Found'' ''Not detected'' 3),
            (''contactInfo'',
               found_check ''Contact Information'' hasContact ''Found'' ''Not detected'' 3),
            (''cookieConsent'',
               found_check ''Cookie Notice'' hasCookieConsent ''Detected'' ''Not detected'' 3),
            (''aboutSection'',
               found_check ''About Section'' hasAbout ''Found'' ''Not detected'' 2),
            (''physicalAddress'',
               found_check ''Physical Address'' hasAddress ''Detected'' ''Not found'' 2),
            (''socialMedia'',
               found_check ''Social Media Presence'' hasSocial ''Links found'' ''Not detected'' 2),
            (''trustBadges'',
               found_check ''Trust Indicators'' hasTrustBadges ''Found'' ''Not detected'' 2),
            (''gdprCompliance'',
               found_check ''GDPR Compliance'' hasGDPR ''Indicators found'' ''Not detected'' 2)])"

subsection \<open>The report\<close>

definition security_categories :: "TrustSecurityAnalyzer \<Rightarrow> (string \<times> category) list" where
  "security_categories this =
     [(''securityHeaders'', analyzeSecurityHeaders this),
      (''domainTrust'', analyzeDomainTrust this),
      (''infrastructure'', analyzeInfrastructure this),
      (''trustIndicators'', analyzeTrustIndicators this)]"

definition security_allChecks :: "TrustSecurityAnalyzer \<Rightarrow> check list" where
  "security_allChecks this = flatten_checks (security_categories this)"

definition security_analyze :: "TrustSecurityAnalyzer \<Rightarrow> report" where
  "security_analyze this =
     (let allChecks = security_allChecks this;
          earnedPoints = reduce_sum score allChecks;
          maxPoints = reduce_sum maxScore allChecks
      in \<lparr> rep_score = percent_of earnedPoints maxPoints, rep_maxScore = 100,
           categories = security_categories this \<rparr>)"

section \<open>The synthetic performance analyzer\<close>

text \<open>
  \<open>doc\<close> and \<open>select\<close> are the field \<open>$\<close>: the parsed document, and the selection
  by a selector given as text. \<open>loadTime\<close> is the measured load time, a whole number
  of milliseconds.
\<close>

record PageSpeedAnalyzer =
  url :: string
  doc :: "node list"
  select :: "string \<Rightarrow> string + nat"
  headers :: headers
  loadTime :: int
  html :: string

definition new_PageSpeedAnalyzer ::
  "library \<Rightarrow> string \<Rightarrow> string \<Rightarrow> headers \<Rightarrow> int \<Rightarrow> PageSpeedAnalyzer" where
  "new_PageSpeedAnalyzer lib u h hs t =
     \<lparr> url = u, doc = cheerio_load lib h, select = cheerio_select lib (cheerio_load lib h),
       headers = hs, loadTime = t, html = h \<rparr>"

text \<open>
  \<open>x.toFixed(f)\<close> for a binary64 number \<open>x\<close> below \<open>10\<^sup>2\<^sup>1\<close> in size: the multiple
  of \<open>10\<^sup>-\<^sup>f\<close> nearest to the number, a tie going away from zero, written with \<open>f\<close>
  decimals. The argument is the real that the binary64 number stands for, so that
  \<open>toFixed 1 (dbl 1.95)\<close> is \<open>1.9\<close>: the binary64 number nearest to 1.95 lies below
  it.
\<close>

definition toFixed :: "nat \<Rightarrow> real \<Rightarrow> string" where
  "toFixed f x =
     (let sign = (if x < 0 then ''-'' else []);
          n = nat (floor (\<bar>x\<bar> * 10 ^ f + 1 / 2));
          digits = show_nat n;
          padded = replicate (Suc f - length digits) CHR ''0'' @ digits;
          k = length padded - f
      in sign @ take k padded @ (if f = 0 then [] else ''.'' @ drop k padded))"

subsection \<open>Performance\<close>

text \<open>
  The simulated times are products and quotients of binary64 numbers, each rounded. The
  load time is the difference of two readings of the clock, far from the range where a
  product overflows.
\<close>

definition performance_lcp :: "PageSpeedAnalyzer \<Rightarrow> check" where
  "performance_lcp this =
     (let lcpTime = dbl (real_of_int (loadTime this) * dbl 1.3);
          (lcpScore, lcpStatus) =
            (if lcpTime < 2500 then (25, Good)
             else if lcpTime < 4000 then (22, Warning)
             else (10, Error))
      in \<lparr> name = ''Largest Contentful Paint'', val = toFixed 1 (dbl (lcpTime / 1000)) @ ''s'',
           score = lcpScore, maxScore = 25, status = lcpStatus \<rparr>)"

definition performance_fcp :: "PageSpeedAnalyzer \<Rightarrow> check" where
  "performance_fcp this =
     (let fcpTime = dbl (real_of_int (loadTime this) * dbl 0.6);
          (fcpScore, fcpStatus) =
            (if fcpTime < 1800 then (10, Good)
             else if fcpTime < 3000 then (7, Warning)
             else (3, Error))
      in \<lparr> name = ''First Contentful Paint'', val = toFixed 1 (dbl (fcpTime / 1000)) @ ''s'',
           score = fcpScore, maxScore = 10, status = fcpStatus \<rparr>)"

definition performance_tbt :: "PageSpeedAnalyzer \<Rightarrow> check" where
  "performance_tbt this =
     (let blockingJS =
            length (query (doc this)
              (Both (Tag ''script'')
                (Both (Not (HasAttr ''async''))
                  (Both (Not (HasAttr ''defer''))
                        (Not (AttrEq ''type'' ''application/ld+json''))))));
          tbtTime = blockingJS * 50;
          tbtScore =
            (if 600 < tbtTime then 10
             else if 300 < tbtTime then 20
             else if 150 < tbtTime then 25
             else 30)
      in \<lparr> name = ''Total Blocking Time'', val = show_nat tbtTime @ ''ms'',
           score = tbtScore, maxScore = 30,
           status = (if 25 \<le> tbtScore then Good else if 20 \<le> tbtScore then Warning else Error) \<rparr>)"

definition unsizedMedia :: "PageSpeedAnalyzer \<Rightarrow> int" where
  "unsizedMedia this =
     (let images = length (query (doc this) (Tag ''img''));
          imagesWithDimensions =
            length (query (doc this)
              (Both (Tag ''img'') (Both (HasAttr ''width'') (HasAttr ''height''))));
          iframes = length (query (doc this) (Tag ''iframe''));
          iframesWithDimensions =
            length (query (doc this)
              (Both (Tag ''iframe'') (Both (HasAttr ''width'') (HasAttr ''height''))))
      in (int images - int imagesWithDimensions) + (int iframes - int iframesWithDimensions))"

definition performance_cls :: "PageSpeedAnalyzer \<Rightarrow> check" where
  "performance_cls this =
     (let clsScore =
            (if 5 < unsizedMedia this then 10
             else if 2 < unsizedMedia this then 18
             else if 0 < unsizedMedia this then 22
             else 25)
      in \<lparr> name = ''Cumulative Layout Shift'',
           val = (if unsizedMedia this = 0 then ''0.00''
                  else ''~'' @ toFixed 2 (dbl (real_of_int (unsizedMedia this) * dbl 0.05))),
           score = clsScore, maxScore = 25,
           status = (if 22 \<le> clsScore then Good else if 18 \<le> clsScore then Warning else Error) \<rparr>)"

definition performance_speedIndex :: "PageSpeedAnalyzer \<Rightarrow> check" where
  "performance_speedIndex this =
     (let speedIndex = dbl (real_of_int (loadTime this) * dbl 1.1);
          (siScore, siStatus) =
            (if speedIndex < 3400 then (10, Good)
             else if speedIndex < 5800 then (7, Warning)
             else (3, Error))
      in \<lparr> name = ''Speed Index'', val = toFixed 1 (dbl (speedIndex / 1000)) @ ''s'',
           score = siScore, maxScore = 10, status = siStatus \<rparr>)"

definition analyzePerformance :: "PageSpeedAnalyzer \<Rightarrow> category" where
  "analyzePerformance this =
     make_category ''Performance''
       [(''lcp'', performance_lcp this),
        (''fcp'', performance_fcp this),
        (''tbt'', performance_tbt this),
        (''cls'', performance_cls this),
        (''speedIndex'', performance_speedIndex this)]"

subsection \<open>SEO\<close>

text \<open>A check that always earns its points.\<close>

definition fixed_check :: "string \<Rightarrow> string \<Rightarrow> int \<Rightarrow> check" where
  "fixed_check n v pts = \<lparr> name = n, val = v, score = pts, maxScore = pts, status = Good \<rparr>"

text \<open>
  The score of a share: every point when there is nothing to count, the rounded
  share of the points otherwise.
\<close>

definition ratio_score :: "nat \<Rightarrow> nat \<Rightarrow> int \<Rightarrow> int" where
  "ratio_score part whole pts =
     (if whole = 0 then pts else Math_round ((real part / real whole) * real_of_int pts))"

definition seo_indexable :: "PageSpeedAnalyzer \<Rightarrow> check" where
  "seo_indexable this =
     (let noIndex =
            (0 < length (query (doc this)
                   (Both (Tag ''meta'')
                     (Both (AttrEq ''name'' ''robots'') (AttrContains ''content'' ''noindex'')))))
      in \<lparr> name = ''Page isn't blocked from indexing'',
           val = (if noIndex then ''Blocked'' else ''Indexable''),
           score = (if noIndex then 0 else 31), maxScore = 31,
           status = (if noIndex then Error else Good) \<rparr>)"

definition seo_hasTitle :: "PageSpeedAnalyzer \<Rightarrow> check" where
  "seo_hasTitle this =
     (let titleText = trim (text_of (query (doc this) (Tag ''title'')));
          hasTitle = (0 < length titleText)
      in \<lparr> name = ''Document has a `<title>` element'',
           val = (if hasTitle
                  then [CHR 0x22] @ substring0 titleText 40
                       @ (if 40 < length titleText then ''...'' else []) @ [CHR 0x22]
                  else ''Missing''),
           score = (if hasTitle then 8 else 0), maxScore = 8,
           status = (if hasTitle then Good else Error) \<rparr>)"

definition seo_hasMetaDesc :: "PageSpeedAnalyzer \<Rightarrow> check" where
  "seo_hasMetaDesc this =
     (let metaDesc =
            attr_of (query (doc this) (Both (Tag ''meta'') (AttrEq ''name'' ''description'')))
              ''content'';
          hasMetaDesc = truthy metaDesc
      in \<lparr> name = ''Document has a meta description'',
           val = (if hasMetaDesc then ''Present'' else ''Missing''),
           score = (if hasMetaDesc then 8 else 0), maxScore = 8,
           status = (if hasMetaDesc then Good else Warning) \<rparr>)"

definition hasDescriptiveText :: "node list \<times> node \<Rightarrow> bool" where
  "hasDescriptiveText el =
     (let text = toLowerCase (trim (textContent (snd el)))
      in 0 < length text
         \<and> text \<notin> set [''click here'', ''here'', ''read more'', ''link'', ''more''])"

definition seo_descriptiveLinks :: "PageSpeedAnalyzer \<Rightarrow> check" where
  "seo_descriptiveLinks this =
     (let links = query (doc this) (Tag ''a'');
          descriptiveLinks = length (filter hasDescriptiveText links);
          descriptiveLinkScore = ratio_score descriptiveLinks (length links) 8
      in \<lparr> name = ''Links have descriptive text'',
           val = show_nat descriptiveLinks @ ''/'' @ show_nat (length links) @ '' links'',
           score = descriptiveLinkScore, maxScore = 8,
           status = (if 6 \<le> descriptiveLinkScore then Good else Warning) \<rparr>)"

definition seo_crawlableLinks :: "PageSpeedAnalyzer \<Rightarrow> check" where
  "seo_crawlableLinks this =
     (let jsLinks =
            length (query (doc this) (Both (Tag ''a'') (AttrPrefix ''href'' ''javascript:'')));
          crawlableScore = (if jsLinks = 0 then 8 else max 0 (8 - int jsLinks))
      in \<lparr> name = ''Links are crawlable'',
           val = (if jsLinks = 0 then ''All crawlable''
                  else show_nat jsLinks @ '' JavaScript links''),
           score = crawlableScore, maxScore = 8,
           status = (if jsLinks = 0 then Good else Warning) \<rparr>)"

definition seo_imageAlt :: "PageSpeedAnalyzer \<Rightarrow> check" where
  "seo_imageAlt this =
     (let allImages = length (query (doc this) (Tag ''img''));
          imagesWithAlt = length (query (doc this) (Both (Tag ''img'') (HasAttr ''alt'')));
          altScore = ratio_score imagesWithAlt allImages 8
      in \<lparr> name = ''Image elements have [alt] attributes'',
           val = show_nat imagesWithAlt @ ''/'' @ show_nat allImages @ '' images'',
           score = altScore, maxScore = 8,
           status = (if 6 \<le> altScore then Good else Warning) \<rparr>)"

definition seo_hreflang :: "PageSpeedAnalyzer \<Rightarrow> check" where
  "seo_hreflang this =
     (let hasHreflang =
            (0 < length (query (doc this) (Both (Tag ''link'') (HasAttr ''hreflang'')))
             \<or> 0 < length (query (doc this) (Both (Tag ''html'') (HasAttr ''lang''))))
      in \<lparr> name = ''Document has a valid `hreflang`'',
           val = (if hasHreflang then ''Present'' else ''Missing''),
           score = (if hasHreflang then 8 else 4), maxScore = 8,
           status = (if hasHreflang then Good else Warning) \<rparr>)"

definition seo_canonical :: "PageSpeedAnalyzer \<Rightarrow> check" where
  "seo_canonical this =
     (let hasCanonical =
            (0 < length (query (doc this) (Both (Tag ''link'') (AttrEq ''rel'' ''canonical''))))
      in \<lparr> name = ''Document has a valid `rel=canonical`'',
           val = (if hasCanonical then ''Present'' else ''Missing''),
           score = (if hasCanonical then 8 else 0), maxScore = 8,
           status = (if hasCanonical then Good else Warning) \<rparr>)"

definition analyzeSEO :: "PageSpeedAnalyzer \<Rightarrow> category" where
  "analyzeSEO this =
     make_category ''SEO''
       [(''indexable'', seo_indexable this),
        (''hasTitle'', seo_hasTitle this),
        (''hasMetaDesc'', seo_hasMetaDesc this),
        (''httpStatus'', fixed_check ''Page has successful HTTP status code'' ''200 OK'' 8),
        (''descriptiveLinks'', seo_descriptiveLinks this),
        (''crawlableLinks'', seo_crawlableLinks this),
        (''robotsTxt'', fixed_check ''robots.txt is valid'' ''Check separately'' 8),
        (''imageAlt'', seo_imageAlt this),
        (''hreflang'', seo_hreflang this),
        (''canonical'', seo_canonical this)]"

subsection \<open>Best practices\<close>

definition bestPractices_usesHttps :: "parsed_url \<Rightarrow> check" where
  "bestPractices_usesHttps p =
     (let isHttps = (protocol p = ''https:'')
      in \<lparr> name = ''Uses HTTPS'', val = (if isHttps then ''Yes'' else ''No''),
           score = (if isHttps then 19 else 0), maxScore = 19,
           status = (if isHttps then Good else Error) \<rparr>)"

definition bestPractices_noDeprecatedApis :: "PageSpeedAnalyzer \<Rightarrow> check" where
  "bestPractices_noDeprecatedApis this =
     (let hasDeprecated =
            (str_includes (html this) ''document.write'' \<or> str_includes (html this) ''eval(''
             \<or> str_includes (html this) ''with('')
      in \<lparr> name = ''Avoids deprecated APIs'',
           val = (if hasDeprecated then ''Found deprecated APIs'' else ''No deprecated APIs''),
           score = (if hasDeprecated then 0 else 19), maxScore = 19,
           status = (if hasDeprecated then Warning else Good) \<rparr>)"

definition bestPractices_noThirdPartyCookies :: "PageSpeedAnalyzer \<Rightarrow> check" where
  "bestPractices_noThirdPartyCookies this =
     (let hasTrackers =
            (str_includes (html this) ''google-analytics''
             \<or> str_includes (html this) ''facebook.com/tr''
             \<or> str_includes (html this) ''doubleclick.net'')
      in \<lparr> name = ''Avoids third-party cookies'',
           val = (if hasTrackers then ''Third-party scripts found'' else ''Clean''),
           score = (if hasTrackers then 12 else 19), maxScore = 19,
           status = (if hasTrackers then Warning else Good) \<rparr>)"

definition bestPractices_allowsPaste :: "PageSpeedAnalyzer \<Rightarrow> check" where
  "bestPractices_allowsPaste this =
     (let pasteBlocked =
            (str_includes (html this) (''onpaste='' @ [CHR 0x22] @ ''return false'' @ [CHR 0x22])
             \<or> str_includes (html this) (''onpaste='' @ [CHR 0x22] @ ''false'' @ [CHR 0x22]))
      in \<lparr> name = ''Allows users to paste into input fields'',
           val = (if pasteBlocked then ''Paste blocked'' else ''Paste allowed''),
           score = (if pasteBlocked then 0 else 12), maxScore = 12,
           status = (if pasteBlocked then Error else Good) \<rparr>)"

definition bestPractices_noGeoOnLoad :: "PageSpeedAnalyzer \<Rightarrow> check" where
  "bestPractices_noGeoOnLoad this =
     (let hasGeoOnLoad =
            (str_includes (html this) ''navigator.geolocation.getCurrentPosition''
             \<and> \<not> str_includes (html this) ''addEventListener'')
      in \<lparr> name = ''Avoids requesting the geolocation permission on page load'',
           val = (if hasGeoOnLoad then ''Requests on load'' else ''OK''),
           score = (if hasGeoOnLoad then 0 else 4), maxScore = 4,
           status = (if hasGeoOnLoad then Warning else Good) \<rparr>)"

definition bestPractices_noNotifOnLoad :: "PageSpeedAnalyzer \<Rightarrow> check" where
  "bestPractices_noNotifOnLoad this =
     (let hasNotifOnLoad =
            (str_includes (html this) ''Notification.requestPermission''
             \<and> \<not> str_includes (html this) ''addEventListener'')
      in \<lparr> name = ''Avoids requesting the notification permission on page load'',
           val = (if hasNotifOnLoad then ''Requests on load'' else ''OK''),
           score = (if hasNotifOnLoad then 0 else 4), maxScore = 4,
           status = (if hasNotifOnLoad then Warning else Good) \<rparr>)"

definition bestPractices_imageAspectRatio :: "PageSpeedAnalyzer \<Rightarrow> check" where
  "bestPractices_imageAspectRatio this =
     (let imagesWithDimensions =
            length (query (doc this)
              (Both (Tag ''img'') (Both (HasAttr ''width'') (HasAttr ''height''))));
          totalImages = length (query (doc this) (Tag ''img''));
          aspectRatioScore = ratio_score imagesWithDimensions totalImages 4
      in \<lparr> name = ''Displays images with correct aspect ratio'',
           val = show_nat imagesWithDimensions @ ''/'' @ show_nat totalImages
                 @ '' images have dimensions'',
           score = aspectRatioScore, maxScore = 4,
           status = (if 3 \<le> aspectRatioScore then Good else Warning) \<rparr>)"

definition bestPractices_responsiveImages :: "PageSpeedAnalyzer \<Rightarrow> check" where
  "bestPractices_responsiveImages this =
     (let responsiveImages =
            length (query (doc this) (Both (Tag ''img'') (HasAttr ''srcset'')))
            + length (query (doc this) (Inside (Tag ''picture'') (Tag ''source'')))
      in \<lparr> name = ''Serves images with appropriate resolution'',
           val = (if 0 < responsiveImages then show_nat responsiveImages @ '' responsive images''
                  else ''No srcset found''),
           score = (if 0 < responsiveImages then 4 else 2), maxScore = 4,
           status = (if 0 < responsiveImages then Good else Warning) \<rparr>)"

definition bestPractices_hasDoctype :: "PageSpeedAnalyzer \<Rightarrow> check" where
  "bestPractices_hasDoctype this =
     (let hasDoctype = str_includes (toLowerCase (html this)) ''<!doctype html''
      in \<lparr> name = ''Page has the HTML doctype'',
           val = (if hasDoctype then ''Present'' else ''Missing''),
           score = (if hasDoctype then 4 else 0), maxScore = 4,
           status = (if hasDoctype then Good else Error) \<rparr>)"

definition bestPractices_hasCharset :: "PageSpeedAnalyzer \<Rightarrow> check" where
  "bestPractices_hasCharset this =
     (let charsetMeta =
            attr_of (query (doc this) (Both (Tag ''meta'') (HasAttr ''charset''))) ''charset'';
          httpEquivCharset =
            attr_of (query (doc this) (Both (Tag ''meta'') (AttrEq ''http-equiv'' ''Content-Type'')))
              ''content'';
          hasCharset = or_opt charsetMeta httpEquivCharset
      in \<lparr> name = ''Properly defines charset'',
           val = (if truthy hasCharset then or_str charsetMeta ''Defined'' else ''Missing''),
           score = (if truthy hasCharset then 4 else 0), maxScore = 4,
           status = (if truthy hasCharset then Good else Warning) \<rparr>)"

text \<open>
  The category is built after \<open>new URL(this.url)\<close>: there is none when that throws.
\<close>

definition analyzeBestPractices :: "library \<Rightarrow> PageSpeedAnalyzer \<Rightarrow> category option" where
  "analyzeBestPractices lib this =
     (case URL_new lib (url this) of
        None \<Rightarrow> None
      | Some p \<Rightarrow>
          Some (make_category ''Best Practices''
            [(''usesHttps'', bestPractices_usesHttps p),
             (''noDeprecatedApis'', bestPractices_noDeprecatedApis this),
             (''noThirdPartyCookies'', bestPractices_noThirdPartyCookies this),
             (''allowsPaste'', bestPractices_allowsPaste this),
             (''noGeoOnLoad'', bestPractices_noGeoOnLoad this),
             (''noNotifOnLoad'', bestPractices_noNotifOnLoad this),
             (''imageAspectRatio'', bestPractices_imageAspectRatio this),
             (''responsiveImages'', bestPractices_responsiveImages this),
             (''hasDoctype'', bestPractices_hasDoctype this),
             (''hasCharset'', bestPractices_hasCharset this),
             (''browserErrors'',
                fixed_check ''Browser errors were logged to the console''
                  ''Check in browser DevTools'' 4),
             (''devToolsIssues'',
                fixed_check ''No issues in the `Issues` panel in Chrome Devtools''
                  ''Check in browser DevTools'' 4)]))"

subsection \<open>Accessibility\<close>

text \<open>The value of a run of decimal or hexadecimal digits.\<close>

definition digit_val :: "char \<Rightarrow> nat" where
  "digit_val c = length (takeWhile (\<lambda>d. d \<noteq> lower_char c) ''0123456789abcdef'')"

definition digits_val :: "int \<Rightarrow> string \<Rightarrow> int" where
  "digits_val base ds = foldl (\<lambda>a c. base * a + int (digit_val c)) 0 ds"

definition is_hex_digit :: "char \<Rightarrow> bool" where
  "is_hex_digit c = (lower_char c \<in> set ''0123456789abcdef'')"

text \<open>
  \<open>parseInt(s)\<close>: white space, a sign, then decimal digits, or hexadecimal ones
  after \<open>0x\<close>; \<open>None\<close> is \<open>NaN\<close>.
\<close>

definition parseInt :: "string \<Rightarrow> int option" where
  "parseInt s =
     (let t = dropWhile is_space s;
          (neg, u) =
            (case t of
               [] \<Rightarrow> (False, t)
             | c # r \<Rightarrow>
                 if c = CHR ''-'' then (True, r) else if c = CHR ''+'' then (False, r)
                 else (False, t));
          hex = (startsWith u ''0x'' \<or> startsWith u ''0X'');
          ds = (if hex then takeWhile is_hex_digit (drop 2 u) else takeWhile is_digit u);
          n = digits_val (if hex then 16 else 10) ds
      in if ds = [] then None else Some (if neg then - n else n))"

text \<open>
  \<open>parseFloat(s)\<close> for a string of digits and dots: the digits before the first dot
  and those right after it, read as a decimal and rounded to binary64; \<open>NaN\<close> when
  there is no digit.
\<close>

definition parseFloat :: "string \<Rightarrow> number" where
  "parseFloat s =
     (let ip = takeWhile is_digit s;
          fp = (case dropWhile is_digit s of
                  [] \<Rightarrow> []
                | c # r \<Rightarrow> if c = CHR ''.'' then takeWhile is_digit r else [])
      in if ip = [] \<and> fp = [] then NaN
         else binary64
                (real_of_int (digits_val 10 ip)
                 + real_of_int (digits_val 10 fp) / 10 ^ length fp))"

text \<open>
  The group that \<open>/maximum-scale=([0-9.]+)/\<close> captures at its first match, if it
  matches.
\<close>

fun match_maximum_scale :: "string \<Rightarrow> string option" where
  "match_maximum_scale [] = None"
| "match_maximum_scale (c # s) =
     (let captured =
            takeWhile (\<lambda>d. is_digit d \<or> d = CHR ''.'')
              (drop (length ''maximum-scale='') (c # s))
      in if startsWith (c # s) ''maximum-scale='' \<and> captured \<noteq> [] then Some captured
         else match_maximum_scale s)"

text \<open>\<open>/^[a-z]{2}(-[A-Z]{2})?$/.test(s)\<close>.\<close>

definition is_lower :: "char \<Rightarrow> bool" where
  "is_lower c = (c \<in> set ''abcdefghijklmnopqrstuvwxyz'')"

definition is_upper :: "char \<Rightarrow> bool" where
  "is_upper c = (c \<in> set ''ABCDEFGHIJKLMNOPQRSTUVWXYZ'')"

definition validLangPattern :: "string \<Rightarrow> bool" where
  "validLangPattern s =
     ((length s = 2 \<and> list_all is_lower s)
      \<or> (length s = 5 \<and> list_all is_lower (take 2 s) \<and> s ! 2 = CHR ''-''
          \<and> list_all is_upper (drop 3 s)))"

definition accessibility_ariaMatchRoles :: "PageSpeedAnalyzer \<Rightarrow> check" where
  "accessibility_ariaMatchRoles this =
     (let ariaLabel = length (query (doc this) (HasAttr ''aria-label''));
          ariaHidden = length (query (doc this) (HasAttr ''aria-hidden''));
          ariaDescribedby = length (query (doc this) (HasAttr ''aria-describedby''));
          ariaLabelledby = length (query (doc this) (HasAttr ''aria-labelledby''));
          ariaElements = ariaLabel + ariaHidden + ariaDescribedby + ariaLabelledby
      in \<lparr> name = ''`[aria-*]` attributes match their roles'',
           val = (if 0 < ariaElements then ''ARIA attributes found'' else ''No ARIA attributes''),
           score = 5, maxScore = 5, status = Good \<rparr>)"

definition accessibility_ariaHiddenBody :: "PageSpeedAnalyzer \<Rightarrow> check" where
  "accessibility_ariaHiddenBody this =
     (let bodyHidden =
            (0 < length (query (doc this) (Both (Tag ''body'') (AttrEq ''aria-hidden'' ''true''))))
      in \<lparr> name = ''`[aria-hidden='' @ [CHR 0x22] @ ''true'' @ [CHR 0x22]
                  @ '']` is not present on the document `<body>`'',
           val = (if bodyHidden then ''Found on body'' else ''OK''),
           score = (if bodyHidden then 0 else 5), maxScore = 5,
           status = (if bodyHidden then Error else Good) \<rparr>)"

definition accessibility_roleAriaRequired :: "PageSpeedAnalyzer \<Rightarrow> check" where
  "accessibility_roleAriaRequired this =
     (let roleElements = length (query (doc this) (HasAttr ''role''))
      in \<lparr> name = ''`[role]`'' @ [CHR 0x27] @ ''s have all required `[aria-*]` attributes'',
           val = (if 0 < roleElements then show_nat roleElements @ '' role elements''
                  else ''No role elements''),
           score = 5, maxScore = 5, status = Good \<rparr>)"

definition hasAccessibleName :: "node list \<times> node \<Rightarrow> bool" where
  "hasAccessibleName el =
     (trim (textContent (snd el)) \<noteq> [] \<or> truthy (attr (snd el) ''aria-label'')
      \<or> truthy (attr (snd el) ''title''))"

definition accessibility_buttonNames :: "PageSpeedAnalyzer \<Rightarrow> check" where
  "accessibility_buttonNames this =
     (let buttons = query (doc this) (Tag ''button'');
          buttonsWithText = length (filter hasAccessibleName (query (doc this) (Tag ''button'')));
          buttonScore = ratio_score buttonsWithText (length buttons) 5
      in \<lparr> name = ''Buttons have an accessible name'',
           val = show_nat buttonsWithText @ ''/'' @ show_nat (length buttons) @ '' buttons'',
           score = buttonScore, maxScore = 5,
           status = (if 4 \<le> buttonScore then Good else Warning) \<rparr>)"

definition accessibility_imagesHaveAlt :: "PageSpeedAnalyzer \<Rightarrow> check" where
  "accessibility_imagesHaveAlt this =
     (let images = query (doc this) (Tag ''img'');
          imagesWithAlt = length (query (doc this) (Both (Tag ''img'') (HasAttr ''alt'')));
          imgAltScore = ratio_score imagesWithAlt (length images) 5
      in \<lparr> name = ''Image elements have `[alt]` attributes'',
           val = show_nat imagesWithAlt @ ''/'' @ show_nat (length images) @ '' images'',
           score = imgAltScore, maxScore = 5,
           status = (if 4 \<le> imgAltScore then Good else Warning) \<rparr>)"

text \<open>
  The label test of an input builds the selector \<open>label[for="id"]\<close> from the \<open>id\<close>
  of the input. For an \<open>id\<close> without a double quote, a backslash or a less-than sign,
  the text is that selector with that value, which \<open>query\<close> reads. Any other \<open>id\<close>
  changes what the text means (the quote ends the value, the backslash escapes the
  character after it, a tag makes the text a piece of HTML), and the outcome is the
  library's, which may be an error.
\<close>

definition plain_id :: "string \<Rightarrow> bool" where
  "plain_id i = list_all (\<lambda>c. c \<notin> set [CHR 0x22, CHR 0x5C, CHR ''<'']) i"

text \<open>\<open>this.$(`label[for="${id}"]`).length\<close>.\<close>

definition label_count :: "PageSpeedAnalyzer \<Rightarrow> string \<Rightarrow> string + nat" where
  "label_count this i =
     (if plain_id i
      then Inr (length (query (doc this) (Both (Tag ''label'') (AttrEq ''for'' i))))
      else select this (''label[for='' @ [CHR 0x22] @ i @ [CHR 0x22] @ '']''))"

text \<open>
  The test itself: the label is looked up only for an input without \<open>aria-label\<close>
  and \<open>placeholder\<close> that has an \<open>id\<close>, and an error of the lookup is the outcome
  of the test.
\<close>

definition hasLabel :: "PageSpeedAnalyzer \<Rightarrow> node list \<times> node \<Rightarrow> string + bool" where
  "hasLabel this el =
     (if truthy (attr (snd el) ''aria-label'') \<or> truthy (attr (snd el) ''placeholder'')
      then Inr True
      else (case attr (snd el) ''id'' of
              None \<Rightarrow> Inr False
            | Some i \<Rightarrow>
                if i = [] then Inr False
                else (case label_count this i of Inl e \<Rightarrow> Inl e | Inr n \<Rightarrow> Inr (0 < n))))"

text \<open>\<open>els.filter(hasLabel).length\<close>: the first test that throws ends the count.\<close>

fun count_labelled :: "PageSpeedAnalyzer \<Rightarrow> (node list \<times> node) list \<Rightarrow> string + nat" where
  "count_labelled this [] = Inr 0"
| "count_labelled this (el # els) =
     (case hasLabel this el of
        Inl e \<Rightarrow> Inl e
      | Inr b \<Rightarrow>
          (case count_labelled this els of
             Inl e \<Rightarrow> Inl e
           | Inr n \<Rightarrow> Inr (if b then Suc n else n)))"

definition form_inputs :: "PageSpeedAnalyzer \<Rightarrow> (node list \<times> node) list" where
  "form_inputs this =
     query (doc this)
       (Both (Tag ''input'')
         (Both (Not (AttrEq ''type'' ''hidden''))
           (Both (Not (AttrEq ''type'' ''submit'')) (Not (AttrEq ''type'' ''button'')))))"

definition inputsWithLabels :: "PageSpeedAnalyzer \<Rightarrow> string + nat" where
  "inputsWithLabels this = count_labelled this (form_inputs this)"

text \<open>
  The error that \<open>analyzeAccessibility\<close> throws, if it throws: that of the first label
  test that fails. Nothing else in the method throws.
\<close>

definition accessibility_error :: "PageSpeedAnalyzer \<Rightarrow> string option" where
  "accessibility_error this =
     (case inputsWithLabels this of Inl e \<Rightarrow> Some e | Inr n \<Rightarrow> None)"

text \<open>
  The check of the labels, built from the count of the labelled inputs. When a label
  test throws there is no count and the method builds no check; \<open>analyze\<close> below
  asks \<open>accessibility_error\<close> before it takes the category.
\<close>

definition accessibility_formLabels :: "PageSpeedAnalyzer \<Rightarrow> check" where
  "accessibility_formLabels this =
     (let inputs = form_inputs this;
          inputsWithLabels = (case inputsWithLabels this of Inl e \<Rightarrow> 0 | Inr n \<Rightarrow> n);
          labelScore = ratio_score inputsWithLabels (length inputs) 5
      in \<lparr> name = ''Form elements have associated labels'',
           val = show_nat inputsWithLabels @ ''/'' @ show_nat (length inputs) @ '' inputs'',
           score = labelScore, maxScore = 5,
           status = (if 4 \<le> labelScore then Good else Warning) \<rparr>)"

definition accessibility_viewportScalable :: "PageSpeedAnalyzer \<Rightarrow> check" where
  "accessibility_viewportScalable this =
     (let viewport =
            or_str (attr_of (query (doc this) (Both (Tag ''meta'') (AttrEq ''name'' ''viewport'')))
                      ''content'') [];
          hasUserScalableNo =
            (str_includes viewport ''user-scalable=no'' \<or> str_includes viewport ''user-scalable=0'');
          maxScaleTooLow =
            (case match_maximum_scale viewport of
               None \<Rightarrow> False
             | Some captured \<Rightarrow> js_less (parseFloat captured) 5)
      in \<lparr> name = ''`[user-scalable='' @ [CHR 0x22] @ ''no'' @ [CHR 0x22]
                  @ '']` is not used in the `<meta name='' @ [CHR 0x22] @ ''viewport''
                  @ [CHR 0x22] @ ''>` element and the `[maximum-scale]` attribute is not less than 5.'',
           val = (if hasUserScalableNo \<or> maxScaleTooLow then ''Scaling restricted'' else ''OK''),
           score = (if hasUserScalableNo \<or> maxScaleTooLow then 0 else 5), maxScore = 5,
           status = (if hasUserScalableNo \<or> maxScaleTooLow then Error else Good) \<rparr>)"

definition accessibility_ariaHiddenFocusable :: "PageSpeedAnalyzer \<Rightarrow> check" where
  "accessibility_ariaHiddenFocusable this =
     (let ariaHiddenWithFocusable =
            length (query (doc this)
              (Either (Inside (AttrEq ''aria-hidden'' ''true'') (Tag ''button''))
                (Either (Inside (AttrEq ''aria-hidden'' ''true'') (Tag ''a''))
                        (Inside (AttrEq ''aria-hidden'' ''true'') (Tag ''input'')))))
      in \<lparr> name = ''`[aria-hidden='' @ [CHR 0x22] @ ''true'' @ [CHR 0x22]
                  @ '']` elements do not contain focusable descendents'',
           val = (if ariaHiddenWithFocusable = 0 then ''OK''
                  else show_nat ariaHiddenWithFocusable @ '' issues found''),
           score = (if ariaHiddenWithFocusable = 0 then 3 else 0), maxScore = 3,
           status = (if ariaHiddenWithFocusable = 0 then Good else Error) \<rparr>)"

definition accessibility_docTitle :: "PageSpeedAnalyzer \<Rightarrow> check" where
  "accessibility_docTitle this =
     (let hasTitle = (0 < length (trim (text_of (query (doc this) (Tag ''title'')))))
      in \<lparr> name = ''Document has a `<title>` element'',
           val = (if hasTitle then ''Present'' else ''Missing''),
           score = (if hasTitle then 3 else 0), maxScore = 3,
           status = (if hasTitle then Good else Error) \<rparr>)"

definition accessibility_htmlLang :: "PageSpeedAnalyzer \<Rightarrow> check" where
  "accessibility_htmlLang this =
     (let hasLang = attr_of (query (doc this) (Tag ''html'')) ''lang''
      in \<lparr> name = ''`<html>` element has a `[lang]` attribute'',
           val = or_str hasLang ''Missing'',
           score = (if truthy hasLang then 3 else 0), maxScore = 3,
           status = (if truthy hasLang then Good else Error) \<rparr>)"

definition accessibility_htmlLangValid :: "PageSpeedAnalyzer \<Rightarrow> check" where
  "accessibility_htmlLangValid this =
     (let langValue = attr_of (query (doc this) (Tag ''html'')) ''lang'';
          isValidLang =
            (case langValue of None \<Rightarrow> False | Some l \<Rightarrow> l \<noteq> [] \<and> validLangPattern l)
      in \<lparr> name = ''`<html>` element has a valid value for its `[lang]` attribute'',
           val = (if isValidLang then or_str langValue [] else ''Invalid or missing''),
           score = (if isValidLang then 3 else 0), maxScore = 3,
           status = (if isValidLang then Good else Warning) \<rparr>)"

definition hasDiscernibleName :: "node list \<times> node \<Rightarrow> bool" where
  "hasDiscernibleName el =
     (trim (textContent (snd el)) \<noteq> [] \<or> truthy (attr (snd el) ''aria-label'')
      \<or> 0 < length (find_in el (Both (Tag ''img'') (HasAttr ''alt''))))"

definition accessibility_linkNames :: "PageSpeedAnalyzer \<Rightarrow> check" where
  "accessibility_linkNames this =
     (let links = query (doc this) (Tag ''a'');
          linksWithText = length (filter hasDiscernibleName (query (doc this) (Tag ''a'')));
          linkScore = ratio_score linksWithText (length links) 3
      in \<lparr> name = ''Links have a discernible name'',
           val = show_nat linksWithText @ ''/'' @ show_nat (length links) @ '' links'',
           score = linkScore, maxScore = 3,
           status = (if 2 \<le> linkScore then Good else Warning) \<rparr>)"

definition allLi :: "node list \<times> node \<Rightarrow> bool" where
  "allLi el =
     (let children = children_of el
      in length (filter (\<lambda>(anc, e).
                   matches (Either (Tag ''li'') (Either (Tag ''script'') (Tag ''template''))) anc e)
                 children)
         = length children)"

definition accessibility_listStructure :: "PageSpeedAnalyzer \<Rightarrow> check" where
  "accessibility_listStructure this =
     (let lists = query (doc this) (Either (Tag ''ul'') (Tag ''ol''));
          validLists = length (filter allLi lists);
          listScore = ratio_score validLists (length lists) 3
      in \<lparr> name = ''Lists contain only `<li>` elements and script supporting elements (`<script>` and `<template>`).'',
           val = show_nat validLists @ ''/'' @ show_nat (length lists) @ '' lists valid'',
           score = listScore, maxScore = 3,
           status = (if 2 \<le> listScore then Good else Warning) \<rparr>)"

text \<open>
  \<open>$(el).parent().prop('tagName')\<close> is not one of the three list tags: the parent's
  tag in upper case, nothing for an element without a parent.
\<close>

definition orphaned :: "node list \<times> node \<Rightarrow> bool" where
  "orphaned el =
     (case fst el of
        [] \<Rightarrow> True
      | parent # _ \<Rightarrow> toUpperCase (tagName parent) \<notin> set [''UL'', ''OL'', ''MENU''])"

definition accessibility_listItemsContained :: "PageSpeedAnalyzer \<Rightarrow> check" where
  "accessibility_listItemsContained this =
     (let orphanedLi = length (filter orphaned (query (doc this) (Tag ''li'')))
      in \<lparr> name = ''List items (`<li>`) are contained within `<ul>`, `<ol>` or `<menu>` parent elements'',
           val = (if orphanedLi = 0 then ''All valid''
                  else show_nat orphanedLi @ '' orphaned items''),
           score = (if orphanedLi = 0 then 3 else 0), maxScore = 3,
           status = (if orphanedLi = 0 then Good else Error) \<rparr>)"

definition positiveTabindex :: "node list \<times> node \<Rightarrow> bool" where
  "positiveTabindex el =
     (case attr (snd el) ''tabindex'' of
        None \<Rightarrow> False
      | Some t \<Rightarrow> (case parseInt t of None \<Rightarrow> False | Some n \<Rightarrow> 0 < n))"

definition accessibility_noPositiveTabindex :: "PageSpeedAnalyzer \<Rightarrow> check" where
  "accessibility_noPositiveTabindex this =
     (let positive = length (filter positiveTabindex (query (doc this) (HasAttr ''tabindex'')))
      in \<lparr> name = ''No element has a `[tabindex]` value greater than 0'',
           val = (if positive = 0 then ''OK''
                  else show_nat positive @ '' elements with tabindex > 0''),
           score = (if positive = 0 then 3 else 0), maxScore = 3,
           status = (if positive = 0 then Good else Warning) \<rparr>)"

definition accessibility_tableHeaders :: "PageSpeedAnalyzer \<Rightarrow> check" where
  "accessibility_tableHeaders this =
     (let tablesWithHeaders =
            (0 < length (query (doc this) (Inside (Tag ''table'') (Tag ''th'')))
             \<or> length (query (doc this) (Tag ''table'')) = 0)
      in \<lparr> name = ''Cells in a `<table>` element that use the `[headers]` attribute refer to table cells within the same table.'',
           val = (if tablesWithHeaders then ''OK'' else ''Missing headers''),
           score = (if tablesWithHeaders then 3 else 0), maxScore = 3,
           status = (if tablesWithHeaders then Good else Warning) \<rparr>)"

text \<open>
  The loop over the heading levels: it stops, with \<open>False\<close>, at the first heading
  more than one level below the heading before it.
\<close>

fun headingOrderValid :: "int list \<Rightarrow> bool" where
  "headingOrderValid (a # b # hs) = (if a + 1 < b then False else headingOrderValid (b # hs))"
| "headingOrderValid hs = True"

definition heading_levels :: "PageSpeedAnalyzer \<Rightarrow> int list" where
  "heading_levels this =
     map (\<lambda>(anc, e). int (digit_val (tagName e ! 1)))
       (query (doc this)
          (Either (Tag ''h1'') (Either (Tag ''h2'') (Either (Tag ''h3'')
            (Either (Tag ''h4'') (Either (Tag ''h5'') (Tag ''h6'')))))))"

definition accessibility_headingOrder :: "PageSpeedAnalyzer \<Rightarrow> check" where
  "accessibility_headingOrder this =
     (let valid = headingOrderValid (heading_levels this)
      in \<lparr> name = ''Heading elements appear in a sequentially-descending order'',
           val = (if valid then ''Valid order'' else ''Skipped heading levels''),
           score = (if valid then 1 else 0), maxScore = 1,
           status = (if valid then Good else Warning) \<rparr>)"

definition accessibility_mainLandmark :: "PageSpeedAnalyzer \<Rightarrow> check" where
  "accessibility_mainLandmark this =
     (let hasMain =
            (0 < length (query (doc this) (Tag ''main''))
             \<or> 0 < length (query (doc this) (AttrEq ''role'' ''main'')))
      in \<lparr> name = ''Document has a main landmark.'',
           val = (if hasMain then ''Present'' else ''Missing''),
           score = (if hasMain then 1 else 0), maxScore = 1,
           status = (if hasMain then Good else Warning) \<rparr>)"

text \<open>
  The category that \<open>analyzeAccessibility\<close> returns when it returns, that is when
  \<open>accessibility_error\<close> is \<open>None\<close>.
\<close>

definition analyzeAccessibility :: "PageSpeedAnalyzer \<Rightarrow> category" where
  "analyzeAccessibility this =
     make_category ''Accessibility''
       [(''ariaMatchRoles'', accessibility_ariaMatchRoles this),
        (''ariaHiddenBody'', accessibility_ariaHiddenBody this),
        (''roleAriaRequired'', accessibility_roleAriaRequired this),
        (''roleValuesValid'', fixed_check ''`[role]` values are valid'' ''Checking valid roles'' 5),
        (''ariaValuesValid'',
           fixed_check ''`[aria-*]` attributes have valid values'' ''Values appear valid'' 5),
        (''ariaNotMisspelled'',
           fixed_check ''`[aria-*]` attributes are valid and not misspelled''
             ''No misspellings detected'' 5),
        (''buttonNames'', accessibility_buttonNames this),
        (''imagesHaveAlt'', accessibility_imagesHaveAlt this),
        (''formLabels'', accessibility_formLabels this),
        (''viewportScalable'', accessibility_viewportScalable this),
        (''interactiveNames'',
           fixed_check ''`button`, `link`, and `menuitem` elements have accessible names''
             ''Checking interactive elements'' 3),
        (''ariaAsSpecified'',
           fixed_check (''ARIA attributes are used as specified for the element'' @ [CHR 0x27]
                        @ ''s role'')
             ''ARIA usage appears correct'' 3),
        (''ariaHiddenFocusable'', accessibility_ariaHiddenFocusable this),
        (''ariaPermitted'',
           fixed_check ''Elements use only permitted ARIA attributes''
             ''ARIA attributes appear valid'' 3),
        (''colorContrast'',
           fixed_check
             ''Background and foreground colors do not have a sufficient contrast ratio.''
             ''Check in browser DevTools'' 3),
        (''docTitle'', accessibility_docTitle this),
        (''htmlLang'', accessibility_htmlLang this),
        (''htmlLangValid'', accessibility_htmlLangValid this),
        (''linksDistinguishable'',
           fixed_check ''Links are distinguishable without relying on color.'' ''Check visually'' 3),
        (''linkNames'', accessibility_linkNames this),
        (''listStructure'', accessibility_listStructure this),
        (''listItemsContained'', accessibility_listItemsContained this),
        (''noPositiveTabindex'', accessibility_noPositiveTabindex this),
        (''touchTargets'',
           fixed_check ''Touch targets have sufficient size and spacing.'' ''Check visually'' 3),
        (''tableHeaders'', accessibility_tableHeaders this),
        (''headingOrder'', accessibility_headingOrder this),
        (''mainLandmark'', accessibility_mainLandmark this)]"

subsection \<open>The report\<close>

text \<open>
  The report carries, beside the fields of every report, the four category
  percentages.
\<close>

record pagespeed_report = report +
  performanceScore :: number
  seoScore :: number
  bestPracticesScore :: number
  accessibilityScore :: number

text \<open>\<open>c.score / c.maxScore\<close>.\<close>

definition category_ratio :: "category \<Rightarrow> number" where
  "category_ratio c = js_div (Num (of_int (cat_score c))) (Num (of_int (cat_maxScore c)))"

definition weightedScore :: "number list \<Rightarrow> number" where
  "weightedScore categoryScores =
     js_add
       (js_add
          (js_add (js_mul (categoryScores ! 0) (Num 40)) (js_mul (categoryScores ! 1) (Num 25)))
          (js_mul (categoryScores ! 2) (Num 20)))
       (js_mul (categoryScores ! 3) (Num 15))"

text \<open>
  \<open>analyze()\<close>: the report, or \<open>Inl\<close> the message of the error thrown while a
  category is built: by \<open>new URL\<close> in the best practices, by a label test in the
  accessibility category.

  The ratios, the weighted sum and the percentages are written with the exact
  operations. With the maxima 100, 103, 101 and 97 of the categories, the exact weighted
  sum is a multiple of \<open>1 / (100 \<times> 103 \<times> 101 \<times> 97)\<close> that is never halfway between two
  integers, and a percentage \<open>100 \<times> score / maxScore\<close> is a whole number or at least
  \<open>1 / 206\<close> away from halfway; the rounding of binary64, of the order of \<open>10\<^sup>-\<^sup>1\<^sup>3\<close>
  here, does not reach that far, so \<open>Math.round\<close> gives the same integer.
\<close>

definition pagespeed_analyze :: "library \<Rightarrow> PageSpeedAnalyzer \<Rightarrow> string + pagespeed_report" where
  "pagespeed_analyze lib this =
     (let performance = analyzePerformance this;
          seo = analyzeSEO this
      in case analyzeBestPractices lib this of
           None \<Rightarrow> Inl ''Invalid URL''
         | Some bestPractices \<Rightarrow>
             (case accessibility_error this of
                Some e \<Rightarrow> Inl e
              | None \<Rightarrow>
                  (let accessibility = analyzeAccessibility this;
                       categoryScores =
                         [category_ratio performance, category_ratio seo,
                          category_ratio bestPractices, category_ratio accessibility]
                   in Inr \<lparr> rep_score = Math_round_number (weightedScore categoryScores),
                            rep_maxScore = 100,
                            categories =
                              [(''performance'', performance), (''seo'', seo),
                               (''bestPractices'', bestPractices),
                               (''accessibility'', accessibility)],
                            performanceScore =
                              Math_round_number (js_mul (categoryScores ! 0) (Num 100)),
                            seoScore = Math_round_number (js_mul (categoryScores ! 1) (Num 100)),
                            bestPracticesScore =
                              Math_round_number (js_mul (categoryScores ! 2) (Num 100)),
                            accessibilityScore =
                              Math_round_number (js_mul (categoryScores ! 3) (Num 100)) \<rparr>)))"

section \<open>The endpoint\<close>

text \<open>
  What the handler of \<open>POST /api/analyze\<close> reaches outside itself: the two libraries,
  the HTTP client and the clock. \<open>page_get u\<close> is the outcome of the request for the
  page (\<open>Inl\<close> the message of the error thrown; the body of a response is taken to be
  text), \<open>file_get u\<close> that of the request for an auxiliary file, whose body the
  client may have parsed. \<open>startTime\<close> and \<open>endTime\<close> are the two readings of
  \<open>Date.now()\<close>, \<open>now_iso\<close> is \<open>new Date().toISOString()\<close>.
\<close>

record page_response =
  data :: string
  resp_headers :: headers

record environment =
  lib :: library
  page_get :: "string \<Rightarrow> string + page_response"
  file_get :: "string \<Rightarrow> string + jsval"
  startTime :: int
  endTime :: int
  now_iso :: string

text \<open>What the handler did, in order: the requests it sent and the analyzers it ran.\<close>

datatype event = Get string | Ran string

text \<open>A section of the result; \<open>sec_score\<close> is its field \<open>score\<close>.\<close>

record result_section =
  sec_name :: string
  sec_score :: number
  sec_maxScore :: int
  sec_categories :: "(string \<times> category) list"

record pagespeed_section = result_section +
  sec_performanceScore :: number
  sec_seoScore :: number
  sec_bestPracticesScore :: number
  sec_accessibilityScore :: number

record analysis_result =
  res_url :: string
  analyzedAt :: string
  res_loadTime :: string
  overallScore :: number
  websiteQuality :: result_section
  trustSecurity :: result_section
  pageSpeed :: pagespeed_section

text \<open>The body of a response: \<open>{error, details?}\<close> or the result.\<close>

datatype response_body = ErrorBody string "string option" | ResultBody analysis_result

record response =
  status_code :: nat
  body :: response_body

text \<open>\<open>checkFileExists\<close>: the content, or \<open>null\<close> when the request throws.\<close>

definition checkFileExists :: "environment \<Rightarrow> string \<Rightarrow> string \<Rightarrow> jsval" where
  "checkFileExists env baseUrl path =
     (case file_get env (baseUrl @ path) of Inl e \<Rightarrow> JNull | Inr d \<Rightarrow> d)"

text \<open>
  The validation of the URL: \<open>None\<close> when \<open>new URL(url)\<close> throws or the protocol is
  neither of the two.
\<close>

definition validUrl :: "environment \<Rightarrow> string \<Rightarrow> parsed_url option" where
  "validUrl env u =
     (case URL_new (lib env) u of
        None \<Rightarrow> None
      | Some v \<Rightarrow> if protocol v \<in> set [''http:'', ''https:''] then Some v else None)"

text \<open>
  The weighted average of the three scores, in binary64: the three weights are the
  numbers nearest to 0.35 and 0.30, and every product and sum is rounded. For the scores
  7, 31 and 85 the sum comes out just below 41.5 and the overall score is 41, where the
  exact sum is 41.5 and would round to 42.
\<close>

definition overall :: "number \<Rightarrow> number \<Rightarrow> number \<Rightarrow> number" where
  "overall q s p =
     Math_round_number
       (fl_add (fl_add (fl_mul q (Num (dbl 0.35))) (fl_mul s (Num (dbl 0.30))))
          (fl_mul p (Num (dbl 0.35))))"

text \<open>The answer of the outer \<open>catch\<close> to an error with the given message.\<close>

definition internal_error :: "string \<Rightarrow> event list \<Rightarrow> response \<times> event list" where
  "internal_error message evs =
     (\<lparr> status_code = 500,
        body = ErrorBody ''Failed to analyze the website'' (Some message) \<rparr>, evs)"

text \<open>
  The analysis, once the page is there: the three auxiliary requests, the three
  analyzers, the result. An exception (\<open>new URL\<close> throwing inside an analyzer, a label
  test throwing in the last one) ends in the response 500.
\<close>

definition analyse :: "environment \<Rightarrow> string \<Rightarrow> parsed_url \<Rightarrow> page_response \<Rightarrow> response \<times> event list" where
  "analyse env u v resp =
     (let baseUrl = protocol v @ ''//'' @ host v;
          loadTime = endTime env - startTime env;
          html = data resp;
          headers = resp_headers resp;
          robotsTxt = checkFileExists env baseUrl ''/robots.txt'';
          sitemap = checkFileExists env baseUrl ''/sitemap.xml'';
          llmsTxt = checkFileExists env baseUrl ''/llms.txt'';
          fetched =
            [Get u, Get (baseUrl @ ''/robots.txt''), Get (baseUrl @ ''/sitemap.xml''),
             Get (baseUrl @ ''/llms.txt'')]
      in case new_WebsiteQualityAnalyzer (lib env) u html headers
                \<lparr> ad_robotsTxt = robotsTxt, ad_sitemap = sitemap, ad_llmsTxt = llmsTxt \<rparr> of
           None \<Rightarrow> internal_error ''Invalid URL'' fetched
         | Some websiteQualityAnalyzer \<Rightarrow>
             (let websiteQualityResults = quality_analyze websiteQualityAnalyzer
              in case new_TrustSecurityAnalyzer (lib env) u headers html of
                   None \<Rightarrow>
                     internal_error ''Invalid URL'' (fetched @ [Ran ''WebsiteQualityAnalyzer''])
                 | Some trustSecurityAnalyzer \<Rightarrow>
                     (let trustSecurityResults = security_analyze trustSecurityAnalyzer;
                          pageSpeedAnalyzer = new_PageSpeedAnalyzer (lib env) u html headers loadTime
                      in case pagespeed_analyze (lib env) pageSpeedAnalyzer of
                           Inl message \<Rightarrow>
                             internal_error message
                               (fetched @ [Ran ''WebsiteQualityAnalyzer'',
                                           Ran ''TrustSecurityAnalyzer'', Ran ''PageSpeedAnalyzer''])
                         | Inr pageSpeedResults \<Rightarrow>
                             (\<lparr> status_code = 200,
                                body = ResultBody
                                  \<lparr> res_url = u, analyzedAt = now_iso env,
                                    res_loadTime = toFixed 2 (dbl (real_of_int loadTime / 1000)) @ ''s'',
                                    overallScore =
                                      overall (rep_score websiteQualityResults)
                                        (rep_score trustSecurityResults) (rep_score pageSpeedResults),
                                    websiteQuality =
                                      \<lparr> sec_name = ''Website Quality'',
                                        sec_score = rep_score websiteQualityResults,
                                        sec_maxScore = 100,
                                        sec_categories = categories websiteQualityResults \<rparr>,
                                    trustSecurity =
                                      \<lparr> sec_name = ''Trust & Security'',
                                        sec_score = rep_score trustSecurityResults,
                                        sec_maxScore = 100,
                                        sec_categories = categories trustSecurityResults \<rparr>,
                                    pageSpeed =
                                      \<lparr> sec_name = ''PageSpeed'',
                                        sec_score = rep_score pageSpeedResults,
                                        sec_maxScore = 100,
                                        sec_categories = categories pageSpeedResults,
                                        sec_performanceScore = performanceScore pageSpeedResults,
                                        sec_seoScore = seoScore pageSpeedResults,
                                        sec_bestPracticesScore = bestPracticesScore pageSpeedResults,
                                        sec_accessibilityScore =
                                          accessibilityScore pageSpeedResults \<rparr> \<rparr> \<rparr>,
                              fetched @ [Ran ''WebsiteQualityAnalyzer'',
                                         Ran ''TrustSecurityAnalyzer'',
                                         Ran ''PageSpeedAnalyzer'']))))"

text \<open>
  The handler, on the field \<open>url\<close> of the request body (\<open>None\<close> when the body has
  none): the response and what was done to produce it.
\<close>

definition handler :: "environment \<Rightarrow> string option \<Rightarrow> response \<times> event list" where
  "handler env url_field =
     (case url_field of
        None \<Rightarrow> (\<lparr> status_code = 400, body = ErrorBody ''URL is required'' None \<rparr>, [])
      | Some u \<Rightarrow>
          if u = [] then (\<lparr> status_code = 400, body = ErrorBody ''URL is required'' None \<rparr>, [])
          else
            (case validUrl env u of
               None \<Rightarrow> (\<lparr> status_code = 400, body = ErrorBody ''Invalid URL format'' None \<rparr>, [])
             | Some v \<Rightarrow>
                 (case page_get env u of
                    Inl message \<Rightarrow>
                      (\<lparr> status_code = 400,
                         body = ErrorBody ''Could not fetch the website'' (Some message) \<rparr>,
                       [Get u])
                  | Inr resp \<Rightarrow> analyse env u v resp)))"

section \<open>Example inputs\<close>

text \<open>
  Concrete inputs for the examples below. \<open>example_URL\<close> stands in for the URL
  parser: the protocol is the text before the first colon, in lower case, with the
  colon. \<open>example_select\<close> stands in for the selector parser on the texts that are
  not read by \<open>query\<close>: it refuses them, with the message of an attribute value that
  is cut short. \<open>picture_page\<close> is the document of
  \<open><picture><img src="a.webp"></picture>\<close>, \<open>plain_page\<close> a page without images,
  \<open>quoted_page\<close> a page with an input whose \<open>id\<close> is \<open>a"b\<close>.
  \<open>example_environment\<close> serves the first page at \<open>https://example.com\<close> and no
  auxiliary file; \<open>later_environment\<close> is the same at another time of day, and
  \<open>guarded_environment\<close> the same with two security headers on the response;
  \<open>picture_pagespeed\<close> is the performance analyzer that they build.
  \<open>slow_pagespeed\<close> is \<open>plain_pagespeed\<close> with a load time of three seconds.
\<close>

definition example_URL :: "string \<Rightarrow> parsed_url option" where
  "example_URL u =
     (let scheme = takeWhile (\<lambda>c. c \<noteq> CHR '':'') u
      in if scheme = [] \<or> length u \<le> length scheme then None
         else Some \<lparr> protocol = toLowerCase scheme @ '':'',
                     host = takeWhile (\<lambda>c. c \<noteq> CHR ''/'') (drop (length scheme + 3) u) \<rparr>)"

definition picture_page :: "node list" where
  "picture_page =
     [Element ''html'' []
        [Element ''head'' [] [],
         Element ''body'' []
           [Element ''picture'' [] [Element ''img'' [(''src'', ''a.webp'')] []]]]]"

definition plain_page :: "node list" where
  "plain_page =
     [Element ''html'' [(''lang'', ''en'')]
        [Element ''head'' [] [Element ''title'' [] [TextNode ''Example'']],
         Element ''body'' [] [Element ''p'' [] [TextNode ''Hello world'']]]]"

definition quoted_page :: "node list" where
  "quoted_page =
     [Element ''html'' [(''lang'', ''en'')]
        [Element ''head'' [] [Element ''title'' [] [TextNode ''Example'']],
         Element ''body'' []
           [Element ''input'' [(''id'', ''a'' @ [CHR 0x22] @ ''b'')] []]]]"

definition example_select :: "node list \<Rightarrow> string \<Rightarrow> string + nat" where
  "example_select d sel = Inl (''Attribute selector didn'' @ [CHR 0x27] @ ''t terminate'')"

definition example_library :: library where
  "example_library =
     \<lparr> URL_new = example_URL, cheerio_load = (\<lambda>h. picture_page),
       cheerio_select = example_select \<rparr>"

definition picture_quality :: WebsiteQualityAnalyzer where
  "picture_quality =
     \<lparr> WebsiteQualityAnalyzer.url = ''https://example.com'', doc = picture_page,
       headers = Map.empty, html = ''<picture><img src=a.webp></picture>'',
       parsedUrl = \<lparr> protocol = ''https:'', host = ''example.com'' \<rparr>,
       robotsTxt = JNull, sitemap = JNull, llmsTxt = JNull \<rparr>"

definition plain_quality :: WebsiteQualityAnalyzer where
  "plain_quality =
     \<lparr> WebsiteQualityAnalyzer.url = ''https://example.com'', doc = plain_page,
       headers = Map.empty, html = ''<title>Example</title><p>Hello world</p>'',
       parsedUrl = \<lparr> protocol = ''https:'', host = ''example.com'' \<rparr>,
       robotsTxt = JNull, sitemap = JNull, llmsTxt = JNull \<rparr>"

definition plain_pagespeed :: PageSpeedAnalyzer where
  "plain_pagespeed =
     \<lparr> PageSpeedAnalyzer.url = ''https://example.com'', doc = plain_page,
       select = example_select plain_page, headers = Map.empty, loadTime = 1000,
       html = ''<title>Example</title><p>Hello world</p>'' \<rparr>"

definition slow_pagespeed :: PageSpeedAnalyzer where
  "slow_pagespeed = plain_pagespeed \<lparr> loadTime := 3000 \<rparr>"

definition quoted_pagespeed :: PageSpeedAnalyzer where
  "quoted_pagespeed =
     \<lparr> PageSpeedAnalyzer.url = ''https://example.com'', doc = quoted_page,
       select = example_select quoted_page, headers = Map.empty, loadTime = 1000,
       html = ''<title>Example</title><input id='' @ [CHR 0x27] @ ''a'' @ [CHR 0x22] @ ''b''
              @ [CHR 0x27] @ ''>'' \<rparr>"

definition security_with :: "headers \<Rightarrow> TrustSecurityAnalyzer" where
  "security_with hs =
     \<lparr> TrustSecurityAnalyzer.url = ''https://example.com'', headers = hs, html = [],
       parsedUrl = \<lparr> protocol = ''https:'', host = ''example.com'' \<rparr> \<rparr>"

definition example_environment :: environment where
  "example_environment =
     \<lparr> lib = example_library,
       page_get = (\<lambda>u. if u = ''https://example.com''
                       then Inr \<lparr> data = ''<picture><img src=a.webp></picture>'',
                                  resp_headers = Map.empty \<rparr>
                       else Inl ''getaddrinfo ENOTFOUND''),
       file_get = (\<lambda>u. Inl ''Request failed with status code 404''),
       startTime = 1000, endTime = 1800, now_iso = ''2024-01-01T00:00:00.000Z'' \<rparr>"

definition later_environment :: environment where
  "later_environment =
     example_environment \<lparr> startTime := 5000, endTime := 5800,
                           now_iso := ''2024-06-01T12:00:00.000Z'' \<rparr>"

definition guarded_headers :: headers where
  "guarded_headers =
     [''content-security-policy'' \<mapsto> ''default-src https:'', ''x-frame-options'' \<mapsto> ''DENY'']"

definition guarded_environment :: environment where
  "guarded_environment =
     example_environment
       \<lparr> page_get :=
           (\<lambda>u. if u = ''https://example.com''
                then Inr \<lparr> data = ''<picture><img src=a.webp></picture>'',
                           resp_headers = guarded_headers \<rparr>
                else Inl ''getaddrinfo ENOTFOUND'') \<rparr>"

definition picture_pagespeed :: "headers \<Rightarrow> PageSpeedAnalyzer" where
  "picture_pagespeed hs =
     \<lparr> PageSpeedAnalyzer.url = ''https://example.com'', doc = picture_page,
       select = example_select picture_page, headers = hs, loadTime = 800,
       html = ''<picture><img src=a.webp></picture>'' \<rparr>"

section \<open>Properties\<close>

subsection \<open>Sums, rounding and queries\<close>

lemma reduce_sum_sum_list: "reduce_sum f xs = sum_list (map f xs)"
proof -
  have "foldl (\<lambda>sum c. sum + f c) a xs = a + sum_list (map f xs)" for a
    by (induction xs arbitrary: a) (simp_all add: add.assoc)
  then show ?thesis by (simp add: reduce_sum_def)
qed

lemma Math_round_bounds:
  assumes "0 \<le> x" "x \<le> real_of_int k"
  shows "0 \<le> Math_round x \<and> Math_round x \<le> k"
proof -
  have "Math_round x \<le> k"
    unfolding Math_round_def using assms(2) by (simp add: floor_le_iff)
  moreover have "0 \<le> Math_round x"
    unfolding Math_round_def using assms(1) by simp
  ultimately show ?thesis by simp
qed

lemma ratio_score_bounds:
  assumes "part \<le> whole" "0 \<le> pts"
  shows "0 \<le> ratio_score part whole pts \<and> ratio_score part whole pts \<le> pts"
proof (cases "whole = 0")
  case True
  then show ?thesis using assms by (simp add: ratio_score_def)
next
  case False
  then have w: "0 < real whole" by simp
  have r: "real part / real whole \<le> 1" using assms(1) w by simp
  have "0 \<le> real part / real whole * real_of_int pts" using assms(2) by simp
  moreover have "real part / real whole * real_of_int pts \<le> 1 * real_of_int pts"
    by (rule mult_right_mono) (use r assms(2) in simp_all)
  ultimately show ?thesis using False by (simp add: ratio_score_def Math_round_bounds)
qed

lemma query_Both_le: "length (query d (Both p q)) \<le> length (query d p)"
proof -
  have "query d (Both p q) = filter (\<lambda>(anc, e). matches q anc e) (query d p)"
    by (simp add: query_def split_def conj_commute)
  then show ?thesis by simp
qed

lemma percent_of_pos:
  "0 < m \<Longrightarrow> percent_of e m = Num (of_int (Math_round (100 * real_of_int e / real_of_int m)))"
  by (simp add: percent_of_def mult.commute)

subsection \<open>The website quality analyzer\<close>

lemmas quality_defs =
  quality_allChecks_def flatten_checks_def quality_categories_def analyzeSiteQuality_def
  analyzeContentQuality_def analyzeOpenGraph_def analyzeTwitterCards_def analyzeTechnicalSeo_def
  analyzeCrawlability_def make_category_def

lemmas quality_check_defs =
  siteQuality_title_def siteQuality_metaDescription_def siteQuality_favicon_def
  siteQuality_viewport_def siteQuality_headings_def contentQuality_wordCount_def
  contentQuality_imageOptimization_def presence_check_def technicalSeo_schemaJsonLd_def
  crawlability_robotsTxt_def crawlability_sitemap_def crawlability_llmsTxt_def

lemma quality_maxPoints: "reduce_sum maxScore (quality_allChecks this) = 110"
  by (simp add: reduce_sum_sum_list quality_defs quality_check_defs Let_def split_def)

lemma quality_allChecks_length: "length (quality_allChecks this) = 21"
  by (simp add: quality_defs)

lemma picture_quality_new:
  "new_WebsiteQualityAnalyzer example_library ''https://example.com''
       ''<picture><img src=a.webp></picture>'' Map.empty
       \<lparr> ad_robotsTxt = JString [], ad_sitemap = JString [], ad_llmsTxt = JString [] \<rparr>
     = Some picture_quality"
proof -
  have "example_URL ''https://example.com''
      = Some \<lparr> protocol = ''https:'', host = ''example.com'' \<rparr>"
    by code_simp
  then show ?thesis
    by (simp add: new_WebsiteQualityAnalyzer_def example_library_def picture_quality_def
        or_null_def)
qed

text \<open>
  C1. Every check is meant to score between 0 and its maximum, and the comment in the
  code gives the Image Optimization check at most 4 points. The code does not keep to
  it: the count of WebP sources and the count of \<open>picture\<close> elements are added and
  divided by the count of images, and nothing bounds the sum by that count. For the
  page \<open><picture><img src="a.webp"></picture>\<close> the one image is counted twice, the
  ratio is 2 and the check scores 8 of 4.
\<close>

theorem image_optimization_exceeds_max:
  "check_at (analyzeContentQuality picture_quality) ''imageOptimization''
     = Some \<lparr> name = ''Image Optimization'', val = ''2/1 optimized'', score = 8, maxScore = 4,
              status = Good \<rparr>"
  by code_simp

text \<open>
  C4 as stated fails: the quality analyzer has 21 checks, not 24 (5 of site quality, 2
  of content quality, 3 of Open Graph, 4 of Twitter cards, 4 of technical SEO and 3 of
  crawlability).
\<close>

theorem quality_check_count_is_not_24: "length (quality_allChecks picture_quality) \<noteq> 24"
  by (simp add: quality_allChecks_length)

text \<open>
  C4, amended. For every input, the top-level score of the quality analyzer is
  \<open>round(100 \<times> earned / max)\<close>, where earned and max are the flat sums of the scores
  and of the maximal scores of all 21 checks, the checks of the six categories put in
  one list; the maximal scores sum to 110, so the division is by 110.
\<close>

theorem quality_score_flat_over_21_checks:
  "quality_allChecks this =
       map snd (checks (analyzeSiteQuality this)) @ map snd (checks (analyzeContentQuality this))
       @ map snd (checks (analyzeOpenGraph this)) @ map snd (checks (analyzeTwitterCards this))
       @ map snd (checks (analyzeTechnicalSeo this)) @ map snd (checks (analyzeCrawlability this))
   \<and> length (quality_allChecks this) = 21
   \<and> sum_list (map maxScore (quality_allChecks this)) = 110
   \<and> rep_score (quality_analyze this) =
       Num (of_int (Math_round
         (100 * real_of_int (sum_list (map score (quality_allChecks this)))
          / real_of_int (sum_list (map maxScore (quality_allChecks this))))))"
proof -
  have cat: "quality_allChecks this =
       map snd (checks (analyzeSiteQuality this)) @ map snd (checks (analyzeContentQuality this))
       @ map snd (checks (analyzeOpenGraph this)) @ map snd (checks (analyzeTwitterCards this))
       @ map snd (checks (analyzeTechnicalSeo this)) @ map snd (checks (analyzeCrawlability this))"
    by (simp add: quality_allChecks_def flatten_checks_def quality_categories_def)
  have m: "sum_list (map maxScore (quality_allChecks this)) = 110"
    using quality_maxPoints [of this] by (simp add: reduce_sum_sum_list)
  have "rep_score (quality_analyze this) =
       percent_of (sum_list (map score (quality_allChecks this)))
         (sum_list (map maxScore (quality_allChecks this)))"
    by (simp add: quality_analyze_def Let_def reduce_sum_sum_list)
  also have "\<dots> =
       Num (of_int (Math_round
         (100 * real_of_int (sum_list (map score (quality_allChecks this)))
          / real_of_int (sum_list (map maxScore (quality_allChecks this))))))"
    by (rule percent_of_pos) (simp add: m)
  finally have s: "rep_score (quality_analyze this) =
       Num (of_int (Math_round
         (100 * real_of_int (sum_list (map score (quality_allChecks this)))
          / real_of_int (sum_list (map maxScore (quality_allChecks this))))))" .
  show ?thesis using cat quality_allChecks_length m s by blast
qed

theorem quality_score_flat_over_21_checks_witness:
  "length (quality_allChecks picture_quality) = 21
   \<and> sum_list (map maxScore (quality_allChecks picture_quality)) = 110
   \<and> sum_list (map score (quality_allChecks picture_quality)) = 8
   \<and> rep_score (quality_analyze picture_quality) = Num 7"
proof -
  have e: "sum_list (map score (quality_allChecks picture_quality)) = 8"
    by code_simp
  note t = quality_score_flat_over_21_checks [of picture_quality]
  from t have l: "length (quality_allChecks picture_quality) = 21" by blast
  from t have m: "sum_list (map maxScore (quality_allChecks picture_quality)) = 110" by blast
  from t have "rep_score (quality_analyze picture_quality) =
       Num (of_int (Math_round
         (100 * real_of_int (sum_list (map score (quality_allChecks picture_quality)))
          / real_of_int (sum_list (map maxScore (quality_allChecks picture_quality))))))"
    by blast
  then have r: "rep_score (quality_analyze picture_quality) = Num 7"
    by (simp add: e m Math_round_def)
  show ?thesis using l m e r by blast
qed

text \<open>
  C7. On a page without \<open>img\<close> elements the ratio of the Image Optimization check is
  1 and the check scores 4 of 4; the image-alt check of the SEO category scores 8 of 8
  and that of the accessibility category 5 of 5.
\<close>

theorem no_images_full_scores:
  assumes "query (WebsiteQualityAnalyzer.doc q) (Tag ''img'') = []"
    and "query (PageSpeedAnalyzer.doc p) (Tag ''img'') = []"
  shows "optimizedRatio q = 1
       \<and> (\<exists>c. check_at (analyzeContentQuality q) ''imageOptimization'' = Some c
              \<and> score c = 4 \<and> maxScore c = 4)
       \<and> (\<exists>c. check_at (analyzeSEO p) ''imageAlt'' = Some c \<and> score c = 8 \<and> maxScore c = 8)
       \<and> (\<exists>c. check_at (analyzeAccessibility p) ''imagesHaveAlt'' = Some c
              \<and> score c = 5 \<and> maxScore c = 5)"
proof -
  have ratio: "optimizedRatio q = 1"
    using assms(1) by (simp add: optimizedRatio_def allImages_def)
  have opt: "score (contentQuality_imageOptimization q) = 4
           \<and> maxScore (contentQuality_imageOptimization q) = 4"
    by (simp add: contentQuality_imageOptimization_def ratio Math_round_def Let_def)
  have seo: "score (seo_imageAlt p) = 8 \<and> maxScore (seo_imageAlt p) = 8"
    using assms(2) by (simp add: seo_imageAlt_def ratio_score_def Let_def)
  have acc: "score (accessibility_imagesHaveAlt p) = 5
           \<and> maxScore (accessibility_imagesHaveAlt p) = 5"
    using assms(2) by (simp add: accessibility_imagesHaveAlt_def ratio_score_def Let_def)
  have c1: "check_at (analyzeContentQuality q) ''imageOptimization''
              = Some (contentQuality_imageOptimization q)"
    by (simp add: check_at_def analyzeContentQuality_def make_category_def)
  have c2: "check_at (analyzeSEO p) ''imageAlt'' = Some (seo_imageAlt p)"
    by (simp add: check_at_def analyzeSEO_def make_category_def)
  have c3: "check_at (analyzeAccessibility p) ''imagesHaveAlt''
              = Some (accessibility_imagesHaveAlt p)"
    by (simp add: check_at_def analyzeAccessibility_def make_category_def)
  show ?thesis using ratio opt seo acc c1 c2 c3 by simp
qed

theorem no_images_full_scores_witness:
  "query (WebsiteQualityAnalyzer.doc plain_quality) (Tag ''img'') = []
   \<and> query (PageSpeedAnalyzer.doc plain_pagespeed) (Tag ''img'') = []
   \<and> optimizedRatio plain_quality = 1
   \<and> (\<exists>c. check_at (analyzeContentQuality plain_quality) ''imageOptimization'' = Some c
          \<and> score c = 4 \<and> maxScore c = 4)
   \<and> (\<exists>c. check_at (analyzeSEO plain_pagespeed) ''imageAlt'' = Some c
          \<and> score c = 8 \<and> maxScore c = 8)
   \<and> (\<exists>c. check_at (analyzeAccessibility plain_pagespeed) ''imagesHaveAlt'' = Some c
          \<and> score c = 5 \<and> maxScore c = 5)"
proof -
  have q: "query (WebsiteQualityAnalyzer.doc plain_quality) (Tag ''img'') = []"
    by (simp add: plain_quality_def plain_page_def query_def all_elements_def)
  have p: "query (PageSpeedAnalyzer.doc plain_pagespeed) (Tag ''img'') = []"
    by (simp add: plain_pagespeed_def plain_page_def query_def all_elements_def)
  show ?thesis using no_images_full_scores [OF q p] q p by blast
qed

text \<open>
  C10. When the constructor is given an auxiliary content that is falsy (the empty
  string, as much as \<open>null\<close>, \<open>false\<close>, \<open>undefined\<close> or 0), it stores \<open>null\<close>, and
  the crawlability check of that file scores 0 with the value \<open>Missing\<close>.
\<close>

theorem falsy_auxiliary_content_is_missing:
  assumes "new_WebsiteQualityAnalyzer l u h hs ad = Some this"
  shows "(\<not> js_truthy (ad_robotsTxt ad) \<longrightarrow>
            robotsTxt this = JNull
            \<and> check_at (analyzeCrawlability this) ''robotsTxt''
              = Some \<lparr> name = ''robots.txt'', val = ''Missing'', score = 0, maxScore = 4,
                       status = Warning \<rparr>)
       \<and> (\<not> js_truthy (ad_sitemap ad) \<longrightarrow>
            sitemap this = JNull
            \<and> check_at (analyzeCrawlability this) ''sitemap''
              = Some \<lparr> name = ''Sitemap'', val = ''Missing'', score = 0, maxScore = 4,
                       status = Warning \<rparr>)
       \<and> (\<not> js_truthy (ad_llmsTxt ad) \<longrightarrow>
            llmsTxt this = JNull
            \<and> check_at (analyzeCrawlability this) ''llmsTxt''
              = Some \<lparr> name = ''llms.txt'', val = ''Missing'', score = 0, maxScore = 3,
                       status = Error \<rparr>)"
proof -
  obtain p where eq:
    "this = \<lparr> WebsiteQualityAnalyzer.url = u, doc = cheerio_load l h, headers = hs,
              html = h, parsedUrl = p,
              robotsTxt = or_null (ad_robotsTxt ad), sitemap = or_null (ad_sitemap ad),
              llmsTxt = or_null (ad_llmsTxt ad) \<rparr>"
    using assms by (auto simp: new_WebsiteQualityAnalyzer_def split: option.splits)
  show ?thesis
    by (simp add: eq check_at_def analyzeCrawlability_def make_category_def
        crawlability_robotsTxt_def crawlability_sitemap_def crawlability_llmsTxt_def
        present_def or_null_def)
qed

theorem falsy_auxiliary_content_is_missing_witness:
  "new_WebsiteQualityAnalyzer example_library ''https://example.com''
       ''<picture><img src=a.webp></picture>'' Map.empty
       \<lparr> ad_robotsTxt = JString [], ad_sitemap = JString [], ad_llmsTxt = JString [] \<rparr>
     = Some picture_quality
   \<and> check_at (analyzeCrawlability picture_quality) ''robotsTxt''
     = Some \<lparr> name = ''robots.txt'', val = ''Missing'', score = 0, maxScore = 4, status = Warning \<rparr>
   \<and> check_at (analyzeCrawlability picture_quality) ''sitemap''
     = Some \<lparr> name = ''Sitemap'', val = ''Missing'', score = 0, maxScore = 4, status = Warning \<rparr>
   \<and> check_at (analyzeCrawlability picture_quality) ''llmsTxt''
     = Some \<lparr> name = ''llms.txt'', val = ''Missing'', score = 0, maxScore = 3, status = Error \<rparr>"
  using falsy_auxiliary_content_is_missing [OF picture_quality_new] picture_quality_new by simp

subsection \<open>The trust and security analyzer\<close>

lemma hsts_at: "check_at (analyzeSecurityHeaders this) ''hsts'' = Some (securityHeaders_hsts this)"
  by (simp add: check_at_def analyzeSecurityHeaders_def make_category_def)

text \<open>
  C6 as stated fails for a header that is there with an empty value: the value lacks
  \<open>includeSubDomains\<close>, and the check scores 0, not 7.
\<close>

theorem hsts_empty_value_scores_zero:
  "TrustSecurityAnalyzer.headers (security_with [''strict-transport-security'' \<mapsto> []])
       ''strict-transport-security'' = Some []
   \<and> \<not> str_includes [] ''includeSubDomains''
   \<and> check_at (analyzeSecurityHeaders (security_with [''strict-transport-security'' \<mapsto> []])) ''hsts''
       = Some \<lparr> name = ''HTTP Strict Transport Security'', val = ''Missing'', score = 0,
                maxScore = 10, status = Warning \<rparr>"
  by (simp add: hsts_at securityHeaders_hsts_def hstsScore_def security_with_def truthy_def)

text \<open>
  C6, amended. The HSTS check has the maximum 10. With the header absent, or there
  with an empty value, it scores 0. With a non-empty value it scores 7 when the value
  lacks \<open>includeSubDomains\<close>, whether or not \<open>preload\<close> is there; 8 when it has
  \<open>includeSubDomains\<close> and lacks \<open>preload\<close>; 10 when it has both. For the value
  \<open>max-age=31536000\<close> it scores 7.
\<close>

theorem hsts_score_by_flags:
  assumes "check_at (analyzeSecurityHeaders this) ''hsts'' = Some c"
  shows "maxScore c = 10
       \<and> score c =
           (case TrustSecurityAnalyzer.headers this ''strict-transport-security'' of
              None \<Rightarrow> 0
            | Some h \<Rightarrow>
                if h = [] then 0
                else if \<not> str_includes h ''includeSubDomains'' then 7
                else if \<not> str_includes h ''preload'' then 8
                else 10)"
  using assms
  by (auto simp: hsts_at securityHeaders_hsts_def hstsScore_def Let_def split: option.splits)

theorem hsts_score_by_flags_witness:
  "check_at (analyzeSecurityHeaders
       (security_with [''strict-transport-security'' \<mapsto> ''max-age=31536000''])) ''hsts''
     = Some (securityHeaders_hsts
         (security_with [''strict-transport-security'' \<mapsto> ''max-age=31536000'']))
   \<and> score (securityHeaders_hsts
         (security_with [''strict-transport-security'' \<mapsto> ''max-age=31536000''])) = 7
   \<and> maxScore (securityHeaders_hsts
         (security_with [''strict-transport-security'' \<mapsto> ''max-age=31536000''])) = 10"
  using hsts_score_by_flags [OF hsts_at,
      of "security_with [''strict-transport-security'' \<mapsto> ''max-age=31536000'']"]
  by (simp add: hsts_at security_with_def startsWith_def)

lemmas security_defs =
  security_allChecks_def flatten_checks_def security_categories_def analyzeSecurityHeaders_def
  analyzeDomainTrust_def analyzeInfrastructure_def analyzeTrustIndicators_def make_category_def

lemmas security_check_defs =
  securityHeaders_https_def securityHeaders_hsts_def securityHeaders_csp_def
  labelled_header_check_def securityHeaders_permissionsPolicy_def securityHeaders_secureCache_def
  securityHeaders_crossOrigin_def infrastructure_provider_def infrastructure_cdn_def
  infrastructure_serverExposure_def infrastructure_poweredBy_def infrastructure_waf_def
  found_check_def

lemma security_maxPoints: "reduce_sum maxScore (security_allChecks this) = 133"
  by (simp add: reduce_sum_sum_list security_defs security_check_defs Let_def split_def)

lemma security_zero_max_zero_score:
  "\<forall>c \<in> set (security_allChecks this). maxScore c = 0 \<longrightarrow> score c = 0"
  by (simp add: security_defs security_check_defs Let_def)

lemma security_informational_count:
  "length (filter (\<lambda>c. maxScore c = 0) (security_allChecks this)) = 4"
  by (simp add: security_defs security_check_defs Let_def)

lemma sum_without_zero_max:
  assumes "\<forall>c \<in> set cs. maxScore c = 0 \<longrightarrow> score c = 0"
  shows "sum_list (map score (filter (\<lambda>c. maxScore c \<noteq> 0) cs)) = sum_list (map score cs)
       \<and> sum_list (map maxScore (filter (\<lambda>c. maxScore c \<noteq> 0) cs)) = sum_list (map maxScore cs)"
  using assms by (induction cs) auto

lemma security_allChecks_length: "length (security_allChecks this) = 28"
  by (simp add: security_defs Let_def)

lemma security_informational_names:
  "map name (filter (\<lambda>c. maxScore c = 0) (security_allChecks this))
     = [''Registrar'', ''Country'', ''Hosting Provider'', ''Web Application Firewall'']"
  by (simp add: security_defs security_check_defs Let_def)

text \<open>
  C5. For every input, the report of the security analyzer has the four categories
  security headers, domain trust, infrastructure and trust indicators, and its top score
  is \<open>round(100 \<times> \<Sigma> score / \<Sigma> maxScore)\<close> over all the checks of these four
  categories, 28 checks put in one list. The maximal scores always sum to 133, so the
  division is never by zero and the score is a finite number. Four of the checks are
  informational, with the maximum 0: Registrar, Country, Hosting Provider and Web
  Application Firewall. Each of them scores 0, so they add (0, 0) to the two sums, and
  leaving them out of both sums changes neither. A report of informational checks only
  does not arise.
\<close>

theorem security_score_flat_with_informational_checks:
  "categories (security_analyze this) =
       [(''securityHeaders'', analyzeSecurityHeaders this),
        (''domainTrust'', analyzeDomainTrust this),
        (''infrastructure'', analyzeInfrastructure this),
        (''trustIndicators'', analyzeTrustIndicators this)]
   \<and> security_allChecks this =
       map snd (checks (analyzeSecurityHeaders this)) @ map snd (checks (analyzeDomainTrust this))
       @ map snd (checks (analyzeInfrastructure this))
       @ map snd (checks (analyzeTrustIndicators this))
   \<and> length (security_allChecks this) = 28
   \<and> sum_list (map maxScore (security_allChecks this)) = 133
   \<and> rep_score (security_analyze this) =
       Num (of_int (Math_round
         (100 * real_of_int (sum_list (map score (security_allChecks this)))
          / real_of_int (sum_list (map maxScore (security_allChecks this))))))
   \<and> map name (filter (\<lambda>c. maxScore c = 0) (security_allChecks this))
       = [''Registrar'', ''Country'', ''Hosting Provider'', ''Web Application Firewall'']
   \<and> (\<forall>c \<in> set (security_allChecks this). maxScore c = 0 \<longrightarrow> score c = 0)
   \<and> sum_list (map score (filter (\<lambda>c. maxScore c \<noteq> 0) (security_allChecks this)))
       = sum_list (map score (security_allChecks this))
   \<and> sum_list (map maxScore (filter (\<lambda>c. maxScore c \<noteq> 0) (security_allChecks this)))
       = sum_list (map maxScore (security_allChecks this))"
proof -
  have cats: "categories (security_analyze this) =
       [(''securityHeaders'', analyzeSecurityHeaders this),
        (''domainTrust'', analyzeDomainTrust this),
        (''infrastructure'', analyzeInfrastructure this),
        (''trustIndicators'', analyzeTrustIndicators this)]"
    by (simp add: security_analyze_def security_categories_def Let_def)
  have flat: "security_allChecks this =
       map snd (checks (analyzeSecurityHeaders this)) @ map snd (checks (analyzeDomainTrust this))
       @ map snd (checks (analyzeInfrastructure this))
       @ map snd (checks (analyzeTrustIndicators this))"
    by (simp add: security_allChecks_def flatten_checks_def security_categories_def)
  have m: "sum_list (map maxScore (security_allChecks this)) = 133"
    using security_maxPoints [of this] by (simp add: reduce_sum_sum_list)
  have "rep_score (security_analyze this) =
       percent_of (sum_list (map score (security_allChecks this)))
         (sum_list (map maxScore (security_allChecks this)))"
    by (simp add: security_analyze_def Let_def reduce_sum_sum_list)
  also have "\<dots> =
       Num (of_int (Math_round
         (100 * real_of_int (sum_list (map score (security_allChecks this)))
          / real_of_int (sum_list (map maxScore (security_allChecks this))))))"
    by (rule percent_of_pos) (simp add: m)
  finally have s: "rep_score (security_analyze this) =
       Num (of_int (Math_round
         (100 * real_of_int (sum_list (map score (security_allChecks this)))
          / real_of_int (sum_list (map maxScore (security_allChecks this))))))" .
  show ?thesis
    using cats flat security_allChecks_length [of this] m s
      security_informational_names [of this] security_zero_max_zero_score [of this]
      sum_without_zero_max [OF security_zero_max_zero_score [of this]]
    by blast
qed

theorem security_score_flat_with_informational_checks_witness:
  "length (security_allChecks (security_with
       [''strict-transport-security'' \<mapsto> ''max-age=31536000; includeSubDomains; preload''])) = 28
   \<and> sum_list (map maxScore (security_allChecks (security_with
       [''strict-transport-security'' \<mapsto> ''max-age=31536000; includeSubDomains; preload'']))) = 133
   \<and> sum_list (map score (security_allChecks (security_with
       [''strict-transport-security'' \<mapsto> ''max-age=31536000; includeSubDomains; preload'']))) = 36
   \<and> rep_score (security_analyze (security_with
       [''strict-transport-security'' \<mapsto> ''max-age=31536000; includeSubDomains; preload''])) = Num 27
   \<and> sum_list (map score (security_allChecks (security_with Map.empty))) = 26
   \<and> rep_score (security_analyze (security_with Map.empty)) = Num 20"
proof -
  define hs :: headers
    where "hs = [''strict-transport-security'' \<mapsto> ''max-age=31536000; includeSubDomains; preload'']"
  have e: "sum_list (map score (security_allChecks (security_with
       [''strict-transport-security'' \<mapsto> ''max-age=31536000; includeSubDomains; preload'']))) = 36"
    by code_simp
  then have e: "sum_list (map score (security_allChecks (security_with hs))) = 36"
    by (simp add: hs_def)
  have e0: "sum_list (map score (security_allChecks (security_with Map.empty))) = 26"
    by code_simp
  note t = security_score_flat_with_informational_checks [of "security_with hs"]
  note t0 = security_score_flat_with_informational_checks [of "security_with Map.empty"]
  from t have l: "length (security_allChecks (security_with hs)) = 28" by blast
  from t have m: "sum_list (map maxScore (security_allChecks (security_with hs))) = 133" by blast
  from t have "rep_score (security_analyze (security_with hs)) =
       Num (of_int (Math_round
         (100 * real_of_int (sum_list (map score (security_allChecks (security_with hs))))
          / real_of_int (sum_list (map maxScore (security_allChecks (security_with hs)))))))"
    by blast
  then have r: "rep_score (security_analyze (security_with hs)) = Num 27"
    by (simp add: e m Math_round_def)
  from t0 have m0: "sum_list (map maxScore (security_allChecks (security_with Map.empty))) = 133"
    by blast
  from t0 have "rep_score (security_analyze (security_with Map.empty)) =
       Num (of_int (Math_round
         (100 * real_of_int (sum_list (map score (security_allChecks (security_with Map.empty))))
          / real_of_int (sum_list (map maxScore (security_allChecks (security_with Map.empty)))))))"
    by blast
  then have r0: "rep_score (security_analyze (security_with Map.empty)) = Num 20"
    by (simp add: e0 m0 Math_round_def)
  show ?thesis using l m e r e0 r0 unfolding hs_def by blast
qed

subsection \<open>The synthetic performance analyzer\<close>

lemmas performance_check_defs =
  performance_lcp_def performance_fcp_def performance_tbt_def performance_cls_def
  performance_speedIndex_def

lemmas seo_check_defs =
  seo_indexable_def seo_hasTitle_def seo_hasMetaDesc_def fixed_check_def seo_descriptiveLinks_def
  seo_crawlableLinks_def seo_imageAlt_def seo_hreflang_def seo_canonical_def

lemmas bestPractices_check_defs =
  bestPractices_usesHttps_def bestPractices_noDeprecatedApis_def
  bestPractices_noThirdPartyCookies_def bestPractices_allowsPaste_def
  bestPractices_noGeoOnLoad_def bestPractices_noNotifOnLoad_def
  bestPractices_imageAspectRatio_def bestPractices_responsiveImages_def
  bestPractices_hasDoctype_def bestPractices_hasCharset_def fixed_check_def

lemmas accessibility_check_defs =
  accessibility_ariaMatchRoles_def accessibility_ariaHiddenBody_def
  accessibility_roleAriaRequired_def fixed_check_def accessibility_buttonNames_def
  accessibility_imagesHaveAlt_def accessibility_formLabels_def
  accessibility_viewportScalable_def accessibility_ariaHiddenFocusable_def
  accessibility_docTitle_def accessibility_htmlLang_def accessibility_htmlLangValid_def
  accessibility_linkNames_def accessibility_listStructure_def
  accessibility_listItemsContained_def accessibility_noPositiveTabindex_def
  accessibility_tableHeaders_def accessibility_headingOrder_def accessibility_mainLandmark_def

lemma performance_max: "cat_maxScore (analyzePerformance this) = 100"
  by (simp add: analyzePerformance_def make_category_def reduce_sum_sum_list
      performance_check_defs Let_def split_def)

lemma seo_max: "cat_maxScore (analyzeSEO this) = 103"
  by (simp add: analyzeSEO_def make_category_def reduce_sum_sum_list seo_check_defs Let_def)

lemma bestPractices_max:
  "analyzeBestPractices l this = Some bp \<Longrightarrow> cat_maxScore bp = 101"
  by (auto simp: analyzeBestPractices_def make_category_def reduce_sum_sum_list
      bestPractices_check_defs Let_def split: option.splits)

lemma accessibility_max: "cat_maxScore (analyzeAccessibility this) = 97"
  by (simp add: analyzeAccessibility_def make_category_def reduce_sum_sum_list
      accessibility_check_defs Let_def)

lemma category_ratio_Num:
  "cat_maxScore c \<noteq> 0 \<Longrightarrow>
     category_ratio c = Num (real_of_int (cat_score c) / real_of_int (cat_maxScore c))"
  by (simp add: category_ratio_def)

lemma weightedScore_Num:
  "weightedScore [Num a, Num b, Num c, Num d] = Num (40 * a + 25 * b + 20 * c + 15 * d)"
  by (simp add: weightedScore_def mult.commute)

lemma pagespeed_analyze_Inr:
  assumes "analyzeBestPractices l this = Some bp" and "accessibility_error this = None"
  shows "pagespeed_analyze l this =
      Inr \<lparr> rep_score =
               Math_round_number (weightedScore
                 [category_ratio (analyzePerformance this), category_ratio (analyzeSEO this),
                  category_ratio bp, category_ratio (analyzeAccessibility this)]),
             rep_maxScore = 100,
             categories =
               [(''performance'', analyzePerformance this), (''seo'', analyzeSEO this),
                (''bestPractices'', bp), (''accessibility'', analyzeAccessibility this)],
             performanceScore =
               Math_round_number (js_mul (category_ratio (analyzePerformance this)) (Num 100)),
             seoScore = Math_round_number (js_mul (category_ratio (analyzeSEO this)) (Num 100)),
             bestPracticesScore = Math_round_number (js_mul (category_ratio bp) (Num 100)),
             accessibilityScore =
               Math_round_number (js_mul (category_ratio (analyzeAccessibility this)) (Num 100)) \<rparr>"
  by (simp add: pagespeed_analyze_def assms Let_def)

lemma pagespeed_analyze_InrD:
  assumes "pagespeed_analyze l this = Inr r"
  shows "\<exists>bp. analyzeBestPractices l this = Some bp \<and> accessibility_error this = None"
  using assms by (auto simp: pagespeed_analyze_def Let_def split: option.splits)

text \<open>
  A label test that throws ends the analysis: on the page whose input has the \<open>id\<close>
  \<open>a"b\<close>, with a selector parser that refuses the selector built from it,
  \<open>analyze\<close> throws the error of the parser.
\<close>

lemma quoted_id_throws:
  "pagespeed_analyze example_library quoted_pagespeed
     = Inl (''Attribute selector didn'' @ [CHR 0x27] @ ''t terminate'')"
  by code_simp

text \<open>
  C3 as stated fails: the top score is not computed from the rounded category
  percentages that the report exposes. For the page without images, loaded in three
  seconds, the categories score 94 of 100, 87 of 103, 91 of 101 and 96 of 97. The
  exposed percentages are 94, 84, 90 and 99; their weighted mean with the weights 40,
  25, 20 and 15 is 91.45, which rounds to 91 (and the plain weighted sum is 9145). The
  top score is 92.
\<close>

theorem pagespeed_score_is_not_from_rounded_percentages:
  "map_sum id performanceScore (pagespeed_analyze example_library slow_pagespeed) = Inr (Num 94)
   \<and> map_sum id seoScore (pagespeed_analyze example_library slow_pagespeed) = Inr (Num 84)
   \<and> map_sum id bestPracticesScore (pagespeed_analyze example_library slow_pagespeed)
       = Inr (Num 90)
   \<and> map_sum id accessibilityScore (pagespeed_analyze example_library slow_pagespeed)
       = Inr (Num 99)
   \<and> Math_round ((40 * 94 + 25 * 84 + 20 * 90 + 15 * 99) / 100) = 91
   \<and> Math_round (40 * 94 + 25 * 84 + 20 * 90 + 15 * 99) = 9145
   \<and> map_sum id rep_score (pagespeed_analyze example_library slow_pagespeed) = Inr (Num 92)"
proof -
  have "map_sum id
          (\<lambda>r. (rep_score r, performanceScore r, seoScore r, bestPracticesScore r,
                accessibilityScore r))
          (pagespeed_analyze example_library slow_pagespeed)
        = Inr (Num 92, Num 94, Num 84, Num 90, Num 99)"
    by code_simp
  then obtain r where r: "pagespeed_analyze example_library slow_pagespeed = Inr r"
    and v: "rep_score r = Num 92" "performanceScore r = Num 94" "seoScore r = Num 84"
      "bestPracticesScore r = Num 90" "accessibilityScore r = Num 99"
    by (cases "pagespeed_analyze example_library slow_pagespeed") auto
  have a: "Math_round ((40 * 94 + 25 * 84 + 20 * 90 + 15 * 99) / 100) = 91"
    by (simp add: Math_round_def)
  have b: "Math_round (40 * 94 + 25 * 84 + 20 * 90 + 15 * 99) = 9145"
    by (simp add: Math_round_def)
  show ?thesis using a b by (simp add: r v)
qed





subsection \<open>The endpoint\<close>

lemma quality_score_Num: "\<exists>q. rep_score (quality_analyze this) = Num (of_int q)"
proof -
  have m: "sum_list (map maxScore (quality_allChecks this)) = 110"
    using quality_maxPoints [of this] by (simp add: reduce_sum_sum_list)
  have "rep_score (quality_analyze this) =
       percent_of (sum_list (map score (quality_allChecks this)))
         (sum_list (map maxScore (quality_allChecks this)))"
    by (simp add: quality_analyze_def Let_def reduce_sum_sum_list)
  also have "\<dots> =
       Num (of_int (Math_round
         (100 * real_of_int (sum_list (map score (quality_allChecks this)))
          / real_of_int (sum_list (map maxScore (quality_allChecks this))))))"
    by (rule percent_of_pos) (simp add: m)
  finally show ?thesis by blast
qed

lemma security_score_Num: "\<exists>s. rep_score (security_analyze this) = Num (of_int s)"
proof -
  have m: "sum_list (map maxScore (security_allChecks this)) = 133"
    using security_maxPoints [of this] by (simp add: reduce_sum_sum_list)
  have "rep_score (security_analyze this) =
       percent_of (sum_list (map score (security_allChecks this)))
         (sum_list (map maxScore (security_allChecks this)))"
    by (simp add: security_analyze_def Let_def reduce_sum_sum_list)
  also have "\<dots> =
       Num (of_int (Math_round
         (100 * real_of_int (sum_list (map score (security_allChecks this)))
          / real_of_int (sum_list (map maxScore (security_allChecks this))))))"
    by (rule percent_of_pos) (simp add: m)
  finally show ?thesis by blast
qed

lemma pagespeed_score_Num:
  assumes "pagespeed_analyze l this = Inr r"
  shows "\<exists>p. rep_score r = Num (of_int p)"
proof -
  obtain bp where bp: "analyzeBestPractices l this = Some bp"
    and ae: "accessibility_error this = None"
    using pagespeed_analyze_InrD [OF assms] by blast
  have mb: "cat_maxScore bp = 101" using bp by (rule bestPractices_max)
  note ratios =
    category_ratio_Num [of "analyzePerformance this"] category_ratio_Num [of "analyzeSEO this"]
    category_ratio_Num [of bp] category_ratio_Num [of "analyzeAccessibility this"]
  have "rep_score r =
      Math_round_number (weightedScore
        [category_ratio (analyzePerformance this), category_ratio (analyzeSEO this),
         category_ratio bp, category_ratio (analyzeAccessibility this)])"
    using assms pagespeed_analyze_Inr [OF bp ae] by auto
  then show ?thesis
    by (simp add: ratios performance_max seo_max mb accessibility_max weightedScore_Num)
qed

text \<open>
  C2. Whenever the handler answers with a result, the three section scores of the
  result are the top-level scores of the quality, security and synthetic performance
  analyzers run on the fetched page, each a whole number, and the overall score is
  \<open>Math.round(quality * 0.35 + security * 0.30 + performance * 0.35)\<close> of them as the
  machine computes it: the weights are the binary64 numbers nearest to 0.35 and 0.30,
  and each product and each sum is rounded to binary64. Nothing else enters the
  overall score.
\<close>

theorem overall_score_is_weighted_sum:
  assumes "body (fst (handler env url_field)) = ResultBody r"
  shows "\<exists>u page ad wq ts pr q s p.
      url_field = Some u \<and> page_get env u = Inr page
      \<and> new_WebsiteQualityAnalyzer (lib env) u (data page) (resp_headers page) ad = Some wq
      \<and> new_TrustSecurityAnalyzer (lib env) u (resp_headers page) (data page) = Some ts
      \<and> pagespeed_analyze (lib env)
           (new_PageSpeedAnalyzer (lib env) u (data page) (resp_headers page)
              (endTime env - startTime env)) = Inr pr
      \<and> sec_score (websiteQuality r) = rep_score (quality_analyze wq)
      \<and> sec_score (trustSecurity r) = rep_score (security_analyze ts)
      \<and> sec_score (pageSpeed r) = rep_score pr
      \<and> rep_score (quality_analyze wq) = Num (of_int q)
      \<and> rep_score (security_analyze ts) = Num (of_int s)
      \<and> rep_score pr = Num (of_int p)
      \<and> overallScore r =
          Math_round_number
            (fl_add
               (fl_add (fl_mul (Num (of_int q)) (Num (dbl 0.35)))
                  (fl_mul (Num (of_int s)) (Num (dbl 0.30))))
               (fl_mul (Num (of_int p)) (Num (dbl 0.35))))"
proof -
  from assms obtain u v page ad wq ts pr where
    u: "url_field = Some u" and page: "page_get env u = Inr page"
    and wq: "new_WebsiteQualityAnalyzer (lib env) u (data page) (resp_headers page) ad = Some wq"
    and ts: "new_TrustSecurityAnalyzer (lib env) u (resp_headers page) (data page) = Some ts"
    and pr: "pagespeed_analyze (lib env)
           (new_PageSpeedAnalyzer (lib env) u (data page) (resp_headers page)
              (endTime env - startTime env)) = Inr pr"
    and r: "sec_score (websiteQuality r) = rep_score (quality_analyze wq)"
      "sec_score (trustSecurity r) = rep_score (security_analyze ts)"
      "sec_score (pageSpeed r) = rep_score pr"
      "overallScore r =
         overall (rep_score (quality_analyze wq)) (rep_score (security_analyze ts)) (rep_score pr)"
    by (auto simp: handler_def analyse_def internal_error_def Let_def
        split: option.splits sum.splits if_splits)
  obtain q where q: "rep_score (quality_analyze wq) = Num (of_int q)"
    using quality_score_Num [of wq] by blast
  obtain s where s: "rep_score (security_analyze ts) = Num (of_int s)"
    using security_score_Num [of ts] by blast
  obtain p where p: "rep_score pr = Num (of_int p)"
    using pagespeed_score_Num [OF pr] by blast
  have "overallScore r =
          Math_round_number
            (fl_add
               (fl_add (fl_mul (Num (of_int q)) (Num (dbl 0.35)))
                  (fl_mul (Num (of_int s)) (Num (dbl 0.30))))
               (fl_mul (Num (of_int p)) (Num (dbl 0.35))))"
    unfolding r q s p by (simp only: overall_def)
  then show ?thesis using u page wq ts pr r q s p by blast
qed

theorem overall_score_is_weighted_sum_witness:
  "\<exists>r. body (fst (handler guarded_environment (Some ''https://example.com''))) = ResultBody r
       \<and> sec_score (websiteQuality r) = Num 7 \<and> sec_score (trustSecurity r) = Num 31
       \<and> sec_score (pageSpeed r) = Num 85 \<and> overallScore r = Num 41"
proof -
  have ev: "(case body (fst (handler guarded_environment (Some ''https://example.com''))) of
         ResultBody r \<Rightarrow>
           sec_score (websiteQuality r) = Num 7 \<and> sec_score (trustSecurity r) = Num 31
           \<and> sec_score (pageSpeed r) = Num 85
       | ErrorBody e d \<Rightarrow> False)"
    by code_simp
  then obtain r where
    r: "body (fst (handler guarded_environment (Some ''https://example.com''))) = ResultBody r"
    and v: "sec_score (websiteQuality r) = Num 7" "sec_score (trustSecurity r) = Num 31"
      "sec_score (pageSpeed r) = Num 85"
    by (auto split: response_body.splits)
  from overall_score_is_weighted_sum [OF r] obtain q s p where
    "sec_score (websiteQuality r) = Num (of_int q)" "sec_score (trustSecurity r) = Num (of_int s)"
    "sec_score (pageSpeed r) = Num (of_int p)"
    and o: "overallScore r =
          Math_round_number
            (fl_add
               (fl_add (fl_mul (Num (of_int q)) (Num (dbl 0.35)))
                  (fl_mul (Num (of_int s)) (Num (dbl 0.30))))
               (fl_mul (Num (of_int p)) (Num (dbl 0.35))))"
    by auto
  with v have "q = 7" "s = 31" "p = 85" by simp_all
  with o have o': "overallScore r =
          Math_round_number
            (fl_add (fl_add (fl_mul (Num 7) (Num (dbl 0.35))) (fl_mul (Num 31) (Num (dbl 0.30))))
               (fl_mul (Num 85) (Num (dbl 0.35))))"
    by simp
  have "Math_round_number
          (fl_add (fl_add (fl_mul (Num 7) (Num (dbl 0.35))) (fl_mul (Num 31) (Num (dbl 0.30))))
             (fl_mul (Num 85) (Num (dbl 0.35)))) = Num 41"
    by code_simp
  with o' have "overallScore r = Num 41" by simp
  with r v show ?thesis by blast
qed

text \<open>
  C8. A request whose body has no \<open>url\<close>, and a request whose URL does not parse or
  has a protocol other than \<open>http:\<close> and \<open>https:\<close> (such as
  \<open>ftp://example.com\<close>), is answered with the status 400 and a body
  \<open>{error}\<close>; no request has been sent and no analyzer has run.
\<close>

theorem invalid_request_rejected_before_fetch:
  assumes "url_field = None
         \<or> (\<exists>u. url_field = Some u
                \<and> (case URL_new (lib env) u of
                      None \<Rightarrow> True
                    | Some v \<Rightarrow> protocol v \<noteq> ''http:'' \<and> protocol v \<noteq> ''https:''))"
  shows "\<exists>e. e \<in> set [''URL is required'', ''Invalid URL format'']
           \<and> handler env url_field = (\<lparr> status_code = 400, body = ErrorBody e None \<rparr>, [])"
  using assms
  by (auto simp: handler_def validUrl_def split: option.splits)

theorem invalid_request_rejected_before_fetch_witness:
  "(case URL_new (lib example_environment) ''ftp://example.com'' of
      None \<Rightarrow> True
    | Some v \<Rightarrow> protocol v \<noteq> ''http:'' \<and> protocol v \<noteq> ''https:'')
   \<and> handler example_environment (Some ''ftp://example.com'')
       = (\<lparr> status_code = 400, body = ErrorBody ''Invalid URL format'' None \<rparr>, [])
   \<and> handler example_environment None
       = (\<lparr> status_code = 400, body = ErrorBody ''URL is required'' None \<rparr>, [])"
proof -
  have h: "(case URL_new (lib example_environment) ''ftp://example.com'' of
      None \<Rightarrow> True
    | Some v \<Rightarrow> protocol v \<noteq> ''http:'' \<and> protocol v \<noteq> ''https:'')"
    by code_simp
  have v: "validUrl example_environment ''ftp://example.com'' = None" by code_simp
  from h have "Some ''ftp://example.com'' = None
         \<or> (\<exists>u. Some ''ftp://example.com'' = Some u
                \<and> (case URL_new (lib example_environment) u of
                      None \<Rightarrow> True
                    | Some v \<Rightarrow> protocol v \<noteq> ''http:'' \<and> protocol v \<noteq> ''https:''))"
    by blast
  from invalid_request_rejected_before_fetch [OF this] obtain e where
    "handler example_environment (Some ''ftp://example.com'')
       = (\<lparr> status_code = 400, body = ErrorBody e None \<rparr>, [])" by blast
  moreover have "fst (handler example_environment (Some ''ftp://example.com''))
       = \<lparr> status_code = 400, body = ErrorBody ''Invalid URL format'' None \<rparr>"
    by (simp add: handler_def v)
  ultimately have a: "handler example_environment (Some ''ftp://example.com'')
       = (\<lparr> status_code = 400, body = ErrorBody ''Invalid URL format'' None \<rparr>, [])"
    by simp
  from invalid_request_rejected_before_fetch [of None example_environment] obtain e' where
    "handler example_environment None = (\<lparr> status_code = 400, body = ErrorBody e' None \<rparr>, [])"
    by blast
  moreover have "fst (handler example_environment None)
       = \<lparr> status_code = 400, body = ErrorBody ''URL is required'' None \<rparr>"
    by (simp add: handler_def)
  ultimately have b: "handler example_environment None
       = (\<lparr> status_code = 400, body = ErrorBody ''URL is required'' None \<rparr>, [])"
    by simp
  show ?thesis using h a b by blast
qed

text \<open>
  C9. The scores do not depend on when the analysis runs. Two runs that are given the
  same libraries, the same responses for the page and the auxiliary files and the same
  load time, whatever their clocks show, send the same requests and answer alike: the
  same error, or the same result but for the time stamp \<open>analyzedAt\<close>, with every
  check, category and top-level score equal.
\<close>

theorem scores_do_not_depend_on_the_clock:
  assumes "lib env' = lib env" and "page_get env' = page_get env"
    and "file_get env' = file_get env"
    and "endTime env' - startTime env' = endTime env - startTime env"
  shows "snd (handler env' url_field) = snd (handler env url_field)
       \<and> status_code (fst (handler env' url_field)) = status_code (fst (handler env url_field))
       \<and> (case body (fst (handler env url_field)) of
            ErrorBody e d \<Rightarrow> body (fst (handler env' url_field)) = ErrorBody e d
          | ResultBody r \<Rightarrow>
              body (fst (handler env' url_field)) = ResultBody (r \<lparr> analyzedAt := now_iso env' \<rparr>))"
proof -
  have c: "checkFileExists env' b p = checkFileExists env b p" for b p
    by (simp add: checkFileExists_def assms(3))
  have v: "validUrl env' u = validUrl env u" for u
    by (simp add: validUrl_def assms(1))
  show ?thesis
    by (simp add: handler_def analyse_def internal_error_def Let_def c v assms
        split: option.splits sum.splits)
qed

theorem scores_do_not_depend_on_the_clock_witness:
  "lib later_environment = lib example_environment
   \<and> page_get later_environment = page_get example_environment
   \<and> file_get later_environment = file_get example_environment
   \<and> endTime later_environment - startTime later_environment
       = endTime example_environment - startTime example_environment
   \<and> startTime later_environment \<noteq> startTime example_environment
   \<and> snd (handler later_environment (Some ''https://example.com''))
       = snd (handler example_environment (Some ''https://example.com''))
   \<and> (\<exists>r. body (fst (handler example_environment (Some ''https://example.com''))) = ResultBody r
          \<and> body (fst (handler later_environment (Some ''https://example.com'')))
              = ResultBody (r \<lparr> analyzedAt := ''2024-06-01T12:00:00.000Z'' \<rparr>))"
proof -
  have h: "lib later_environment = lib example_environment"
    "page_get later_environment = page_get example_environment"
    "file_get later_environment = file_get example_environment"
    "endTime later_environment - startTime later_environment
       = endTime example_environment - startTime example_environment"
    by (simp_all add: later_environment_def example_environment_def)
  have d: "startTime later_environment \<noteq> startTime example_environment"
    by (simp add: later_environment_def example_environment_def)
  have n: "now_iso later_environment = ''2024-06-01T12:00:00.000Z''"
    by (simp add: later_environment_def)
  have ev: "(case body (fst (handler example_environment (Some ''https://example.com''))) of
         ResultBody r \<Rightarrow> True | ErrorBody e d \<Rightarrow> False)"
    by code_simp
  then obtain r where
    r: "body (fst (handler example_environment (Some ''https://example.com''))) = ResultBody r"
    by (auto split: response_body.splits)
  note t = scores_do_not_depend_on_the_clock [OF h, of "Some ''https://example.com''"]
  from t have s: "snd (handler later_environment (Some ''https://example.com''))
       = snd (handler example_environment (Some ''https://example.com''))" by blast
  from t r have "body (fst (handler later_environment (Some ''https://example.com'')))
              = ResultBody (r \<lparr> analyzedAt := ''2024-06-01T12:00:00.000Z'' \<rparr>)"
    by (simp add: n)
  with h d s r show ?thesis by blast
qed

subsection \<open>The bounds of the scores\<close>

text \<open>
  The Image Optimization check apart, every check of the three analyzers scores between
  0 and its maximum, for every input; the Image Optimization check does so when the
  WebP sources and \<open>picture\<close> elements are no more than the images.
\<close>

lemma performance_checks_in_range: "list_all in_range (map snd (checks (analyzePerformance this)))"
  by (simp add: in_range_def analyzePerformance_def make_category_def performance_check_defs
      Let_def split_def)

lemma hstsScore_range: "0 \<le> hstsScore h \<and> hstsScore h \<le> 10"
  by (simp add: hstsScore_def Let_def split: option.splits)

lemma in_range_presence: "0 \<le> pts \<Longrightarrow> in_range (presence_check n v pts)"
  by (simp add: in_range_def presence_check_def)

lemma in_range_labelled: "0 \<le> pts \<Longrightarrow> in_range (labelled_header_check n l v pts)"
  by (simp add: in_range_def labelled_header_check_def)

lemma in_range_found: "0 \<le> pts \<Longrightarrow> in_range (found_check n f y no pts)"
  by (simp add: in_range_def found_check_def)

lemma in_range_fixed: "0 \<le> pts \<Longrightarrow> in_range (fixed_check n v pts)"
  by (simp add: in_range_def fixed_check_def)

lemma security_header_checks_in_range:
  "in_range (securityHeaders_https this)" "in_range (securityHeaders_hsts this)"
  "in_range (securityHeaders_csp this)" "in_range (securityHeaders_permissionsPolicy this)"
  "in_range (securityHeaders_secureCache this)" "in_range (securityHeaders_crossOrigin this)"
  "in_range (infrastructure_provider this)" "in_range (infrastructure_cdn this)"
  "in_range (infrastructure_serverExposure this)" "in_range (infrastructure_poweredBy this)"
  "in_range (infrastructure_waf this)"
  by (simp_all add: in_range_def securityHeaders_https_def securityHeaders_hsts_def
      hstsScore_range securityHeaders_csp_def securityHeaders_permissionsPolicy_def
      securityHeaders_secureCache_def securityHeaders_crossOrigin_def infrastructure_provider_def
      infrastructure_cdn_def infrastructure_serverExposure_def infrastructure_poweredBy_def
      infrastructure_waf_def Let_def)

lemma security_checks_in_range: "list_all in_range (security_allChecks this)"
proof -
  have d: "list_all in_range (map snd (checks (analyzeDomainTrust this)))"
    by (simp add: analyzeDomainTrust_def make_category_def in_range_def)
  have t: "list_all in_range (map snd (checks (analyzeTrustIndicators this)))"
    by (simp add: analyzeTrustIndicators_def make_category_def in_range_found Let_def)
  have h: "list_all in_range (map snd (checks (analyzeSecurityHeaders this)))"
    by (simp add: analyzeSecurityHeaders_def make_category_def security_header_checks_in_range
        in_range_labelled)
  have i: "list_all in_range (map snd (checks (analyzeInfrastructure this)))"
    by (simp add: analyzeInfrastructure_def make_category_def security_header_checks_in_range)
  show ?thesis
    using d t h i by (simp add: security_allChecks_def flatten_checks_def security_categories_def)
qed

lemma in_range_ratio:
  "part \<le> whole \<Longrightarrow> 0 \<le> pts \<Longrightarrow>
     in_range \<lparr> name = n, val = v, score = ratio_score part whole pts, maxScore = pts, status = st \<rparr>"
  using ratio_score_bounds [of part whole pts] by (simp add: in_range_def)

lemma seo_check_ranges:
  "in_range (seo_indexable this)" "in_range (seo_hasTitle this)" "in_range (seo_hasMetaDesc this)"
  "in_range (seo_descriptiveLinks this)" "in_range (seo_crawlableLinks this)"
  "in_range (seo_imageAlt this)" "in_range (seo_hreflang this)" "in_range (seo_canonical this)"
  by (simp_all add: seo_indexable_def seo_hasTitle_def seo_hasMetaDesc_def
      seo_descriptiveLinks_def seo_crawlableLinks_def seo_imageAlt_def seo_hreflang_def
      seo_canonical_def Let_def in_range_ratio query_Both_le)
     (simp_all add: in_range_def)

lemma seo_checks_in_range: "list_all in_range (map snd (checks (analyzeSEO this)))"
  by (simp add: analyzeSEO_def make_category_def seo_check_ranges in_range_fixed)

lemma bestPractices_check_ranges:
  "in_range (bestPractices_usesHttps p)" "in_range (bestPractices_noDeprecatedApis this)"
  "in_range (bestPractices_noThirdPartyCookies this)" "in_range (bestPractices_allowsPaste this)"
  "in_range (bestPractices_noGeoOnLoad this)" "in_range (bestPractices_noNotifOnLoad this)"
  "in_range (bestPractices_imageAspectRatio this)" "in_range (bestPractices_responsiveImages this)"
  "in_range (bestPractices_hasDoctype this)" "in_range (bestPractices_hasCharset this)"
  by (simp_all add: bestPractices_usesHttps_def bestPractices_noDeprecatedApis_def
      bestPractices_noThirdPartyCookies_def bestPractices_allowsPaste_def
      bestPractices_noGeoOnLoad_def bestPractices_noNotifOnLoad_def
      bestPractices_imageAspectRatio_def bestPractices_responsiveImages_def
      bestPractices_hasDoctype_def bestPractices_hasCharset_def Let_def in_range_ratio
      query_Both_le)
     (simp_all add: in_range_def)

lemma bestPractices_checks_in_range:
  "analyzeBestPractices l this = Some bp \<Longrightarrow> list_all in_range (map snd (checks bp))"
  by (auto simp: analyzeBestPractices_def make_category_def bestPractices_check_ranges
      in_range_fixed split: option.splits)

lemma count_labelled_le: "count_labelled this els = Inr n \<Longrightarrow> n \<le> length els"
proof (induction els arbitrary: n)
  case Nil
  then show ?case by simp
next
  case (Cons el els)
  from Cons.prems obtain b k where k: "count_labelled this els = Inr k"
    and n: "n = (if b then Suc k else k)"
    by (auto split: sum.splits)
  from Cons.IH [OF k] n show ?case by simp
qed

lemma formLabels_in_range: "in_range (accessibility_formLabels this)"
proof -
  have "(case inputsWithLabels this of Inl e \<Rightarrow> 0 | Inr n \<Rightarrow> n) \<le> length (form_inputs this)"
    using count_labelled_le [of this "form_inputs this"]
    by (auto simp: inputsWithLabels_def split: sum.splits)
  then show ?thesis
    by (simp add: accessibility_formLabels_def Let_def in_range_ratio)
qed

lemma accessibility_check_ranges:
  "in_range (accessibility_ariaMatchRoles this)" "in_range (accessibility_ariaHiddenBody this)"
  "in_range (accessibility_roleAriaRequired this)" "in_range (accessibility_buttonNames this)"
  "in_range (accessibility_imagesHaveAlt this)"
  "in_range (accessibility_viewportScalable this)"
  "in_range (accessibility_ariaHiddenFocusable this)" "in_range (accessibility_docTitle this)"
  "in_range (accessibility_htmlLang this)" "in_range (accessibility_htmlLangValid this)"
  "in_range (accessibility_linkNames this)" "in_range (accessibility_listStructure this)"
  "in_range (accessibility_listItemsContained this)"
  "in_range (accessibility_noPositiveTabindex this)" "in_range (accessibility_tableHeaders this)"
  "in_range (accessibility_headingOrder this)" "in_range (accessibility_mainLandmark this)"
  by (simp_all add: accessibility_ariaMatchRoles_def accessibility_ariaHiddenBody_def
      accessibility_roleAriaRequired_def accessibility_buttonNames_def
      accessibility_imagesHaveAlt_def
      accessibility_viewportScalable_def accessibility_ariaHiddenFocusable_def
      accessibility_docTitle_def accessibility_htmlLang_def accessibility_htmlLangValid_def
      accessibility_linkNames_def accessibility_listStructure_def
      accessibility_listItemsContained_def accessibility_noPositiveTabindex_def
      accessibility_tableHeaders_def accessibility_headingOrder_def
      accessibility_mainLandmark_def Let_def in_range_ratio query_Both_le)
     (simp_all add: in_range_def)

lemma accessibility_checks_in_range:
  "list_all in_range (map snd (checks (analyzeAccessibility this)))"
  by (simp add: analyzeAccessibility_def make_category_def accessibility_check_ranges
      formLabels_in_range in_range_fixed)

lemma quality_check_ranges:
  "in_range (siteQuality_title this)" "in_range (siteQuality_metaDescription this)"
  "in_range (siteQuality_favicon this)" "in_range (siteQuality_viewport this)"
  "in_range (siteQuality_headings this)" "in_range (contentQuality_wordCount this)"
  "in_range (technicalSeo_schemaJsonLd this)" "in_range (crawlability_robotsTxt this)"
  "in_range (crawlability_sitemap this)" "in_range (crawlability_llmsTxt this)"
  by (simp_all add: in_range_def siteQuality_title_def siteQuality_metaDescription_def
      siteQuality_favicon_def siteQuality_viewport_def siteQuality_headings_def
      contentQuality_wordCount_def technicalSeo_schemaJsonLd_def crawlability_robotsTxt_def
      crawlability_sitemap_def crawlability_llmsTxt_def Let_def split_def)

lemma imageOptimization_in_range:
  assumes "webpImages this + pictureElements this \<le> allImages this"
  shows "in_range (contentQuality_imageOptimization this)"
proof -
  have "0 \<le> optimizedRatio this * 4 \<and> optimizedRatio this * 4 \<le> real_of_int 4"
    using assms by (simp add: optimizedRatio_def)
  then show ?thesis
    using Math_round_bounds [of "optimizedRatio this * 4" 4]
    by (simp add: in_range_def contentQuality_imageOptimization_def Let_def)
qed

lemma quality_checks_in_range:
  assumes "webpImages this + pictureElements this \<le> allImages this"
  shows "list_all in_range (quality_allChecks this)"
  by (simp add: quality_defs quality_check_ranges imageOptimization_in_range [OF assms]
      in_range_presence)

lemma quality_checks_in_range_except_imageOptimization:
  "list_all in_range (map snd (checks (analyzeSiteQuality this)))
   \<and> in_range (contentQuality_wordCount this)
   \<and> list_all in_range (map snd (checks (analyzeOpenGraph this)))
   \<and> list_all in_range (map snd (checks (analyzeTwitterCards this)))
   \<and> list_all in_range (map snd (checks (analyzeTechnicalSeo this)))
   \<and> list_all in_range (map snd (checks (analyzeCrawlability this)))"
  by (simp add: analyzeSiteQuality_def analyzeOpenGraph_def analyzeTwitterCards_def
      analyzeTechnicalSeo_def analyzeCrawlability_def make_category_def quality_check_ranges
      in_range_presence)

lemma pagespeed_checks_in_range:
  assumes "pagespeed_analyze l this = Inr r"
  shows "list_all in_range (flatten_checks (categories r))"
proof -
  obtain bp where bp: "analyzeBestPractices l this = Some bp"
    and ae: "accessibility_error this = None"
    using pagespeed_analyze_InrD [OF assms] by blast
  have "categories r =
      [(''performance'', analyzePerformance this), (''seo'', analyzeSEO this),
       (''bestPractices'', bp), (''accessibility'', analyzeAccessibility this)]"
    using assms pagespeed_analyze_Inr [OF bp ae] by auto
  then show ?thesis
    using performance_checks_in_range [of this] seo_checks_in_range [of this]
      bestPractices_checks_in_range [OF bp] accessibility_checks_in_range [of this]
    by (simp add: flatten_checks_def)
qed

end
